theory Spec2Isabelle
  imports Complex_Main "HOL-Library.AList" "HOL-Library.Char_ord" "HOL-Library.List_Lexorder"
begin

section \<open>Python values\<close>

text \<open>
  The nodes of \<^verbatim>\<open>audio_duration_version.py\<close> receive loosely typed values from the host
  and sniff their type at run time. A value is modelled by the datatype below. A tensor is
  its shape and the byte size of one element (the sample values themselves never influence
  the code). A dictionary is an association list in insertion order. \<open>PObj c\<close> is an
  object of class \<open>c\<close> that has none of the attributes and operators the code uses.
  Floats are idealised as rationals: arithmetic is exact. A string is the list of the bytes
  of its UTF-8 encoding; the order of these lists, byte by byte, is the order of Python
  strings, code point by code point.
\<close>

datatype pyval =
    PNone
  | PBool bool
  | PInt int
  | PFloat rat
  | PStr string
  | PTensor "nat list" nat
  | PList "pyval list"
  | PDict "(string \<times> pyval) list"
  | PObj string

text \<open>
  The classes of the exceptions that occur. All of them derive from \<^verbatim>\<open>Exception\<close> but the
  last two, which derive from \<^verbatim>\<open>BaseException\<close> only: a handler \<^verbatim>\<open>except Exception\<close>
  lets these through, a bare \<^verbatim>\<open>except:\<close> catches them too.
\<close>

datatype exn =
    IndexError | AttributeError | TypeError | ZeroDivisionError
  | OSError | ValueError | RuntimeError | OverflowError
  | KeyboardInterrupt | SystemExit

fun is_Exception :: "exn \<Rightarrow> bool" where
  "is_Exception KeyboardInterrupt = False"
| "is_Exception SystemExit = False"
| "is_Exception e = True"

text \<open>
  A computation returns a value (\<open>Inr\<close>) or raises (\<open>Inl\<close>). Statements in sequence: the
  first exception ends the computation.
\<close>

fun try_bind :: "exn + 'a \<Rightarrow> ('a \<Rightarrow> exn + 'b) \<Rightarrow> exn + 'b" where
  "try_bind (Inl e) f = Inl e"
| "try_bind (Inr x) f = f x"

text \<open>\<^verbatim>\<open>try: body except Exception as e: handler\<close>.\<close>

definition except_Exception :: "exn + 'a \<Rightarrow> (exn \<Rightarrow> exn + 'a) \<Rightarrow> exn + 'a" where
  "except_Exception body handler =
     (case body of
        Inr v \<Rightarrow> Inr v
      | Inl e \<Rightarrow> if is_Exception e then handler e else Inl e)"

text \<open>
  A computation is contained when the only exceptions it can raise derive from
  \<^verbatim>\<open>Exception\<close>.
\<close>

definition contained :: "exn + 'a \<Rightarrow> bool" where
  "contained m = (case m of Inr v \<Rightarrow> True | Inl e \<Rightarrow> is_Exception e)"

text \<open>
  Truth value of an object (\<^verbatim>\<open>if x\<close>, \<^verbatim>\<open>not x\<close>). A tensor with other than one element
  raises; the value of a one-element tensor is not part of the model, so a tensor is taken
  to raise whenever it is used as a condition.
\<close>

fun truthy :: "pyval \<Rightarrow> exn + bool" where
  "truthy PNone = Inr False"
| "truthy (PBool b) = Inr b"
| "truthy (PInt i) = Inr (i \<noteq> 0)"
| "truthy (PFloat r) = Inr (r \<noteq> 0)"
| "truthy (PStr s) = Inr (s \<noteq> [])"
| "truthy (PTensor sh es) = Inl RuntimeError"
| "truthy (PList xs) = Inr (xs \<noteq> [])"
| "truthy (PDict d) = Inr (d \<noteq> [])"
| "truthy (PObj c) = Inr True"

text \<open>
  The numeric reading of a value in comparisons and divisions: \<^verbatim>\<open>bool\<close> is a subclass of
  \<^verbatim>\<open>int\<close>; every other non-number raises \<^verbatim>\<open>TypeError\<close> there (a tensor used as a
  sample rate is treated like any other non-number).
\<close>

fun num_of :: "pyval \<Rightarrow> rat option" where
  "num_of (PBool b) = Some (if b then 1 else 0)"
| "num_of (PInt i) = Some (of_int i)"
| "num_of (PFloat r) = Some r"
| "num_of v = None"

text \<open>The text of \<^verbatim>\<open>type(x)\<close> in an f-string.\<close>

definition class_repr :: "string \<Rightarrow> string" where
  "class_repr c = ''<class '' @ [CHR 0x27] @ c @ [CHR 0x27] @ ''>''"

fun type_repr :: "pyval \<Rightarrow> string" where
  "type_repr PNone = class_repr ''NoneType''"
| "type_repr (PBool b) = class_repr ''bool''"
| "type_repr (PInt i) = class_repr ''int''"
| "type_repr (PFloat r) = class_repr ''float''"
| "type_repr (PStr s) = class_repr ''str''"
| "type_repr (PTensor sh es) = class_repr ''torch.Tensor''"
| "type_repr (PList xs) = class_repr ''list''"
| "type_repr (PDict d) = class_repr ''dict''"
| "type_repr (PObj c) = class_repr c"

definition dict_has :: "(string \<times> pyval) list \<Rightarrow> string \<Rightarrow> bool" where
  "dict_has d k = (map_of d k \<noteq> None)"

definition dict_get :: "(string \<times> pyval) list \<Rightarrow> string \<Rightarrow> pyval \<Rightarrow> pyval" where
  "dict_get d k dflt = (case map_of d k of Some v \<Rightarrow> v | None \<Rightarrow> dflt)"

text \<open>\<^verbatim>\<open>d[k] = v\<close> and \<^verbatim>\<open>d.update({...})\<close>: an existing key keeps its place.\<close>

definition dict_set :: "(string \<times> pyval) list \<Rightarrow> string \<Rightarrow> pyval \<Rightarrow> (string \<times> pyval) list" where
  "dict_set d k v = AList.update k v d"

definition dict_update ::
  "(string \<times> pyval) list \<Rightarrow> (string \<times> pyval) list \<Rightarrow> (string \<times> pyval) list" where
  "dict_update d kvs = foldl (\<lambda>acc kv. dict_set acc (fst kv) (snd kv)) d kvs"

text \<open>\<^verbatim>\<open>x.get(k, dflt)\<close> on an arbitrary value: only a dictionary has \<^verbatim>\<open>get\<close>.\<close>

definition py_get :: "pyval \<Rightarrow> string \<Rightarrow> pyval \<Rightarrow> exn + pyval" where
  "py_get x k dflt = (case x of PDict d \<Rightarrow> Inr (dict_get d k dflt) | _ \<Rightarrow> Inl AttributeError)"

text \<open>
  \<^verbatim>\<open>json.dumps\<close>: the serialised text is represented by the value it serialises; the call
  raises \<^verbatim>\<open>TypeError\<close> on a value with a tensor or an opaque object inside. The literal
  \<^verbatim>\<open>{}\<close> is \<open>PDict []\<close> and \<^verbatim>\<open>[]\<close> is \<open>PList []\<close>.
\<close>

fun json_serializable :: "pyval \<Rightarrow> bool" where
  "json_serializable (PTensor sh es) = False"
| "json_serializable (PObj c) = False"
| "json_serializable (PList xs) = (\<forall>x \<in> set xs. json_serializable x)"
| "json_serializable (PDict d) = (\<forall>kv \<in> set d. json_serializable (snd kv))"
| "json_serializable v = True"

definition json_dumps :: "pyval \<Rightarrow> exn + pyval" where
  "json_dumps v = (if json_serializable v then Inr v else Inl TypeError)"

section \<open>Number formatting\<close>

definition digit_char :: "nat \<Rightarrow> char" where
  "digit_char d = ''0123456789'' ! d"

fun nat_str :: "nat \<Rightarrow> string" where
  "nat_str n = (if n < 10 then [digit_char n] else nat_str (n div 10) @ [digit_char (n mod 10)])"

declare nat_str.simps [simp del]

definition zfill :: "nat \<Rightarrow> string \<Rightarrow> string" where
  "zfill w s = replicate (w - length s) (CHR ''0'') @ s"

text \<open>Rounding to the nearest integer, ties to even, as \<^verbatim>\<open>round\<close> and \<^verbatim>\<open>format\<close> do.\<close>

definition round_half_even :: "rat \<Rightarrow> int" where
  "round_half_even x =
     (let f = \<lfloor>x\<rfloor>; d = x - of_int f
      in if d < 1 / 2 then f
         else if 1 / 2 < d then f + 1
         else if even f then f else f + 1)"

text \<open>\<^verbatim>\<open>round(x, p)\<close> for a precision \<open>p \<ge> 0\<close> (the host bounds it to 0..6).\<close>

definition py_round :: "rat \<Rightarrow> nat \<Rightarrow> rat" where
  "py_round x p = of_int (round_half_even (x * 10 ^ p)) / 10 ^ p"

text \<open>\<^verbatim>\<open>str(i)\<close> of an integer.\<close>

definition int_str :: "int \<Rightarrow> string" where
  "int_str i = (if i < 0 then ''-'' @ nat_str (nat (- i)) else nat_str (nat i))"

text \<open>The format specs \<^verbatim>\<open>{n:0wd}\<close> for \<open>n \<ge> 0\<close> and \<^verbatim>\<open>{x:0w.pf}\<close>.\<close>

definition fmt_d :: "nat \<Rightarrow> nat \<Rightarrow> string" where
  "fmt_d w n = zfill w (nat_str n)"

definition fmt_f :: "nat \<Rightarrow> nat \<Rightarrow> rat \<Rightarrow> string" where
  "fmt_f w p x =
     (let m = nat \<bar>round_half_even (x * 10 ^ p)\<bar>;
          body = nat_str (m div 10 ^ p) @
                 (if p = 0 then [] else ''.'' @ zfill p (nat_str (m mod 10 ^ p)))
      in if x < 0 then ''-'' @ zfill (w - 1) body else zfill w body)"

text \<open>\<^verbatim>\<open>x % m\<close> on floats, for \<open>m > 0\<close>.\<close>

definition fmod :: "rat \<Rightarrow> rat \<Rightarrow> rat" where
  "fmod x m = x - m * of_int \<lfloor>x / m\<rfloor>"

section \<open>The duration node\<close>

subsection \<open>Messages\<close>

text \<open>
  The status messages of the source are Russian; a string is the list of the bytes of its
  UTF-8 encoding. In English, in the order of the definitions: the path to the audio file
  was not received; audio file not found at path; the path is not a file; the audio file is
  empty; unsupported type of audio data; exception.
\<close>

definition msg_no_path :: string where
  "msg_no_path =
    [CHR 0xD0, CHR 0x9F, CHR 0xD1, CHR 0x83, CHR 0xD1, CHR 0x82, CHR 0xD1, CHR 0x8C,
     CHR '' '', CHR 0xD0, CHR 0xBA, CHR '' '', CHR 0xD0, CHR 0xB0, CHR 0xD1, CHR 0x83,
     CHR 0xD0, CHR 0xB4, CHR 0xD0, CHR 0xB8, CHR 0xD0, CHR 0xBE, CHR '' '', CHR 0xD1,
     CHR 0x84, CHR 0xD0, CHR 0xB0, CHR 0xD0, CHR 0xB9, CHR 0xD0, CHR 0xBB, CHR 0xD1,
     CHR 0x83, CHR '' '', CHR 0xD0, CHR 0xBD, CHR 0xD0, CHR 0xB5, CHR '' '', CHR 0xD0,
     CHR 0xBF, CHR 0xD0, CHR 0xBE, CHR 0xD0, CHR 0xBB, CHR 0xD1, CHR 0x83, CHR 0xD1,
     CHR 0x87, CHR 0xD0, CHR 0xB5, CHR 0xD0, CHR 0xBD]"

definition msg_not_found :: string where
  "msg_not_found =
    [CHR 0xD0, CHR 0x90, CHR 0xD1, CHR 0x83, CHR 0xD0, CHR 0xB4, CHR 0xD0, CHR 0xB8,
     CHR 0xD0, CHR 0xBE, CHR '' '', CHR 0xD1, CHR 0x84, CHR 0xD0, CHR 0xB0, CHR 0xD0,
     CHR 0xB9, CHR 0xD0, CHR 0xBB, CHR '' '', CHR 0xD0, CHR 0xBD, CHR 0xD0, CHR 0xB5,
     CHR '' '', CHR 0xD0, CHR 0xBD, CHR 0xD0, CHR 0xB0, CHR 0xD0, CHR 0xB9, CHR 0xD0,
     CHR 0xB4, CHR 0xD0, CHR 0xB5, CHR 0xD0, CHR 0xBD, CHR '' '', CHR 0xD0, CHR 0xBF,
     CHR 0xD0, CHR 0xBE, CHR '' '', CHR 0xD0, CHR 0xBF, CHR 0xD1, CHR 0x83, CHR 0xD1,
     CHR 0x82, CHR 0xD0, CHR 0xB8, CHR '':'', CHR '' '']"

definition msg_not_file :: string where
  "msg_not_file =
    [CHR 0xD0, CHR 0x9F, CHR 0xD1, CHR 0x83, CHR 0xD1, CHR 0x82, CHR 0xD1, CHR 0x8C,
     CHR '' '', CHR 0xD0, CHR 0xBD, CHR 0xD0, CHR 0xB5, CHR '' '', CHR 0xD1, CHR 0x8F,
     CHR 0xD0, CHR 0xB2, CHR 0xD0, CHR 0xBB, CHR 0xD1, CHR 0x8F, CHR 0xD0, CHR 0xB5,
     CHR 0xD1, CHR 0x82, CHR 0xD1, CHR 0x81, CHR 0xD1, CHR 0x8F, CHR '' '', CHR 0xD1,
     CHR 0x84, CHR 0xD0, CHR 0xB0, CHR 0xD0, CHR 0xB9, CHR 0xD0, CHR 0xBB, CHR 0xD0,
     CHR 0xBE, CHR 0xD0, CHR 0xBC, CHR '':'', CHR '' '']"

definition msg_empty_file :: string where
  "msg_empty_file =
    [CHR 0xD0, CHR 0x90, CHR 0xD1, CHR 0x83, CHR 0xD0, CHR 0xB4, CHR 0xD0, CHR 0xB8,
     CHR 0xD0, CHR 0xBE, CHR '' '', CHR 0xD1, CHR 0x84, CHR 0xD0, CHR 0xB0, CHR 0xD0,
     CHR 0xB9, CHR 0xD0, CHR 0xBB, CHR '' '', CHR 0xD0, CHR 0xBF, CHR 0xD1, CHR 0x83,
     CHR 0xD1, CHR 0x81, CHR 0xD1, CHR 0x82, CHR 0xD0, CHR 0xBE, CHR 0xD0, CHR 0xB9]"

definition msg_unsupported :: string where
  "msg_unsupported =
    [CHR 0xD0, CHR 0x9D, CHR 0xD0, CHR 0xB5, CHR 0xD0, CHR 0xBF, CHR 0xD0, CHR 0xBE,
     CHR 0xD0, CHR 0xB4, CHR 0xD0, CHR 0xB4, CHR 0xD0, CHR 0xB5, CHR 0xD1, CHR 0x80,
     CHR 0xD0, CHR 0xB6, CHR 0xD0, CHR 0xB8, CHR 0xD0, CHR 0xB2, CHR 0xD0, CHR 0xB0,
     CHR 0xD0, CHR 0xB5, CHR 0xD0, CHR 0xBC, CHR 0xD1, CHR 0x8B, CHR 0xD0, CHR 0xB9,
     CHR '' '', CHR 0xD1, CHR 0x82, CHR 0xD0, CHR 0xB8, CHR 0xD0, CHR 0xBF, CHR '' '',
     CHR 0xD0, CHR 0xB0, CHR 0xD1, CHR 0x83, CHR 0xD0, CHR 0xB4, CHR 0xD0, CHR 0xB8,
     CHR 0xD0, CHR 0xBE, CHR '' '', CHR 0xD0, CHR 0xB4, CHR 0xD0, CHR 0xB0, CHR 0xD0,
     CHR 0xBD, CHR 0xD0, CHR 0xBD, CHR 0xD1, CHR 0x8B, CHR 0xD1, CHR 0x85, CHR '':'',
     CHR '' '']"

definition msg_exception :: string where
  "msg_exception =
    [CHR 0xD0, CHR 0x98, CHR 0xD1, CHR 0x81, CHR 0xD0, CHR 0xBA, CHR 0xD0, CHR 0xBB,
     CHR 0xD1, CHR 0x8E, CHR 0xD1, CHR 0x87, CHR 0xD0, CHR 0xB5, CHR 0xD0, CHR 0xBD,
     CHR 0xD0, CHR 0xB8, CHR 0xD0, CHR 0xB5, CHR '':'', CHR '' '']"

subsection \<open>Formatting and the error tuple\<close>

type_synonym duration_result = "rat \<times> string \<times> string \<times> pyval"

definition format_duration :: "rat \<Rightarrow> string" where
  "format_duration seconds =
     (if seconds \<le> 0 then ''00:00:00.000''
      else
        let hours = nat \<lfloor>seconds / 3600\<rfloor>;
            minutes = nat \<lfloor>fmod seconds 3600 / 60\<rfloor>;
            secs = fmod seconds 60
        in if hours > 0
           then fmt_d 2 hours @ '':'' @ fmt_d 2 minutes @ '':'' @ fmt_f 6 3 secs
           else fmt_d 2 minutes @ '':'' @ fmt_f 6 3 secs)"

text \<open>The shape \<^verbatim>\<open>MM:SS.mmm\<close>: nine characters, digits around a colon and a point.\<close>

definition is_digit :: "char \<Rightarrow> bool" where
  "is_digit c = (c \<in> set ''0123456789'')"

definition mm_ss_mmm :: "string \<Rightarrow> bool" where
  "mm_ss_mmm s =
     (length s = 9 \<and> is_digit (s ! 0) \<and> is_digit (s ! 1) \<and> s ! 2 = CHR '':'' \<and>
      is_digit (s ! 3) \<and> is_digit (s ! 4) \<and> s ! 5 = CHR ''.'' \<and>
      is_digit (s ! 6) \<and> is_digit (s ! 7) \<and> is_digit (s ! 8))"

definition error_response :: "string \<Rightarrow> duration_result" where
  "error_response error_message = (0, ''00:00:00.000'', ''error: '' @ error_message, PDict [])"

subsection \<open>Duration of an in-memory buffer\<close>

definition shape_last :: "nat list \<Rightarrow> exn + nat" where
  "shape_last sh = (if sh = [] then Inl IndexError else Inr (last sh))"

text \<open>The rank dispatch of \<^verbatim>\<open>_calculate_duration_from_tensor\<close>.\<close>

definition num_samples_of :: "nat list \<Rightarrow> exn + nat" where
  "num_samples_of sh =
     (if length sh = 1 then Inr (sh ! 0)
      else if length sh = 2 then (if sh ! 0 \<le> 2 then Inr (sh ! 1) else Inr (sh ! 1))
      else if length sh = 3 then Inr (sh ! 2)
      else if length sh = 4 then Inr (sh ! 2)
      else shape_last sh)"

text \<open>The \<^verbatim>\<open>try\<close> block: \<^verbatim>\<open>num_samples > 0 and sample_rate > 0\<close> short-circuits.\<close>

definition tensor_try :: "nat list \<Rightarrow> pyval \<Rightarrow> exn + rat" where
  "tensor_try sh sample_rate =
     (case num_samples_of sh of
        Inl e \<Rightarrow> Inl e
      | Inr num_samples \<Rightarrow>
          if num_samples > 0
          then (case num_of sample_rate of
                  None \<Rightarrow> Inl TypeError
                | Some r \<Rightarrow> if r > 0 then Inr (of_nat num_samples / r) else Inr 0)
          else Inr 0)"

text \<open>
  The handler's second attempt (last dimension over sample rate); \<open>None\<close> when it raises
  in turn or returns nothing, and the handler then re-raises the first exception.
\<close>

definition tensor_fallback :: "nat list \<Rightarrow> pyval \<Rightarrow> rat option" where
  "tensor_fallback sh sample_rate =
     (if length sh \<ge> 1
      then let samples_per_channel = last sh
           in if samples_per_channel = 0 then None
              else (case num_of sample_rate of
                      None \<Rightarrow> None
                    | Some r \<Rightarrow> if r = 0 then None else Some (of_nat samples_per_channel / r))
      else None)"

definition calculate_duration_from_tensor :: "pyval \<Rightarrow> pyval \<Rightarrow> exn + rat" where
  "calculate_duration_from_tensor waveform sample_rate =
     (case waveform of
        PTensor sh es \<Rightarrow>
          except_Exception (tensor_try sh sample_rate)
            (\<lambda>e. case tensor_fallback sh sample_rate of
                    Some duration \<Rightarrow> Inr duration
                  | None \<Rightarrow> Inl e)
      | _ \<Rightarrow> Inl AttributeError)"

definition get_total_samples :: "pyval \<Rightarrow> nat" where
  "get_total_samples tensor =
     (case tensor of
        PTensor sh es \<Rightarrow>
          if length sh = 1 then sh ! 0
          else if length sh = 2 then sh ! 1
          else if length sh = 3 then sh ! 2
          else if length sh = 4 then sh ! 3
          else (case shape_last sh of Inr n \<Rightarrow> n | Inl e \<Rightarrow> 0)
      | _ \<Rightarrow> 0)"

definition waveform_shape :: "pyval \<Rightarrow> pyval" where
  "waveform_shape waveform =
     (case waveform of PTensor sh es \<Rightarrow> PList (map (\<lambda>n. PInt (int n)) sh) | _ \<Rightarrow> PList [])"

subsection \<open>The environment\<close>

text \<open>
  Everything the code reads from outside itself is a field of the environment: which
  libraries were imported, the file system, the host's directories, the outcome of each
  library or subprocess call, and the texts the interpreter produces (\<^verbatim>\<open>str(e)\<close> of an
  exception, \<^verbatim>\<open>str(x)\<close> of a value in an f-string, \<^verbatim>\<open>float(s)\<close> and \<^verbatim>\<open>int(s)\<close> of a string).
  The file system gives what \<^verbatim>\<open>os.stat\<close> finds at a path: nothing, a regular file, a
  directory or a file of another kind (a device, a pipe, a socket), with its size; the table
  of descriptors gives the same for the open file descriptors of the process.

  \<open>mtime_iso\<close> is the text of
  \<^verbatim>\<open>datetime.fromtimestamp(os.path.getmtime(path)).isoformat()\<close> for an existing file; it
  is \<open>None\<close> when the time stamp of the file is outside the range that
  \<^verbatim>\<open>fromtimestamp\<close> accepts. The call then raises \<^verbatim>\<open>OverflowError\<close>, \<^verbatim>\<open>OSError\<close> or
  \<^verbatim>\<open>ValueError\<close>, by the platform and the value; the code treats the three alike and the
  model raises \<^verbatim>\<open>ValueError\<close>.

  The three functions \<^verbatim>\<open>_calculate_with_pydub\<close>, \<^verbatim>\<open>_calculate_with_librosa\<close> and
  \<^verbatim>\<open>_calculate_with_ffmpeg\<close> wrap one external call each in a handler that catches every
  exception, and return either a success dictionary (duration and metadata) or an error
  dictionary (message); their outcome for a path is a field. \<^verbatim>\<open>_get_ffprobe_metadata\<close>
  likewise returns the parsed output of the probe, or its fixed default.
\<close>

datatype fs_entry = RegularFile nat | Directory nat | SpecialFile nat

datatype backend_result =
    BackendSuccess rat "(string \<times> pyval) list"
  | BackendError string

record env =
  PYDUB_AVAILABLE :: bool
  LIBROSA_AVAILABLE :: bool
  fs :: "string \<Rightarrow> fs_entry option"
  fd_table :: "int \<Rightarrow> fs_entry option"
  mtime_iso :: "string \<Rightarrow> string option"
  input_directory :: string
  output_directory :: string
  temp_directory :: string
  calculate_with_pydub :: "string \<Rightarrow> backend_result"
  calculate_with_librosa :: "string \<Rightarrow> backend_result"
  calculate_with_ffmpeg :: "string \<Rightarrow> backend_result"
  get_ffprobe_metadata :: "string \<Rightarrow> (string \<times> pyval) list"
  mediainfo :: "string \<Rightarrow> exn + (string \<times> pyval) list"
  os_walk :: "string \<Rightarrow> (string \<times> string list) list"
  glob_glob :: "string \<Rightarrow> string list"
  fnmatch :: "string \<Rightarrow> string \<Rightarrow> bool"
  exn_str :: "exn \<Rightarrow> string"
  py_str :: "pyval \<Rightarrow> string"
  parse_float :: "string \<Rightarrow> rat option"
  parse_int :: "string \<Rightarrow> int option"

subsection \<open>Paths and files\<close>

text \<open>The functions of \<^verbatim>\<open>os.path\<close> on a path that is a string.\<close>

definition os_path_exists :: "env \<Rightarrow> string \<Rightarrow> bool" where
  "os_path_exists E p = (fs E p \<noteq> None)"

definition os_path_isfile :: "env \<Rightarrow> string \<Rightarrow> bool" where
  "os_path_isfile E p = (case fs E p of Some (RegularFile n) \<Rightarrow> True | _ \<Rightarrow> False)"

definition os_path_isdir :: "env \<Rightarrow> string \<Rightarrow> bool" where
  "os_path_isdir E p = (case fs E p of Some (Directory n) \<Rightarrow> True | _ \<Rightarrow> False)"

definition os_path_getsize :: "env \<Rightarrow> string \<Rightarrow> exn + nat" where
  "os_path_getsize E p =
     (case fs E p of
        None \<Rightarrow> Inl OSError
      | Some (RegularFile n) \<Rightarrow> Inr n
      | Some (Directory n) \<Rightarrow> Inr n
      | Some (SpecialFile n) \<Rightarrow> Inr n)"

text \<open>
  The same functions on an arbitrary value. \<^verbatim>\<open>os.stat\<close> reads an integer (and a boolean,
  which is an integer) as a file descriptor: it raises \<^verbatim>\<open>OverflowError\<close> when the integer
  is outside the range of a C \<^verbatim>\<open>int\<close> (32 bits) and \<^verbatim>\<open>OSError\<close> when the descriptor is
  not open. Every other value that is not a string raises \<^verbatim>\<open>TypeError\<close>.
  \<^verbatim>\<open>exists\<close>, \<^verbatim>\<open>isfile\<close> and \<^verbatim>\<open>isdir\<close> catch \<^verbatim>\<open>OSError\<close> and \<^verbatim>\<open>ValueError\<close> and
  answer \<^verbatim>\<open>False\<close>; \<^verbatim>\<open>getsize\<close> catches nothing.
\<close>

definition os_fstat :: "env \<Rightarrow> int \<Rightarrow> exn + fs_entry" where
  "os_fstat E fd =
     (if fd < - (2 ^ 31) \<or> 2 ^ 31 \<le> fd then Inl OverflowError
      else (case fd_table E fd of None \<Rightarrow> Inl OSError | Some entry \<Rightarrow> Inr entry))"

definition os_stat :: "env \<Rightarrow> pyval \<Rightarrow> exn + fs_entry" where
  "os_stat E path =
     (case path of
        PStr p \<Rightarrow> (case fs E p of None \<Rightarrow> Inl OSError | Some entry \<Rightarrow> Inr entry)
      | PInt fd \<Rightarrow> os_fstat E fd
      | PBool b \<Rightarrow> os_fstat E (if b then 1 else 0)
      | _ \<Rightarrow> Inl TypeError)"

definition stat_test :: "env \<Rightarrow> pyval \<Rightarrow> (fs_entry \<Rightarrow> bool) \<Rightarrow> exn + bool" where
  "stat_test E path test =
     (case os_stat E path of
        Inr entry \<Rightarrow> Inr (test entry)
      | Inl e \<Rightarrow> if e = OSError \<or> e = ValueError then Inr False else Inl e)"

definition py_exists :: "env \<Rightarrow> pyval \<Rightarrow> exn + bool" where
  "py_exists E path = stat_test E path (\<lambda>entry. True)"

definition py_isfile :: "env \<Rightarrow> pyval \<Rightarrow> exn + bool" where
  "py_isfile E path =
     stat_test E path (\<lambda>entry. case entry of RegularFile n \<Rightarrow> True | _ \<Rightarrow> False)"

definition py_isdir :: "env \<Rightarrow> pyval \<Rightarrow> exn + bool" where
  "py_isdir E path =
     stat_test E path (\<lambda>entry. case entry of Directory n \<Rightarrow> True | _ \<Rightarrow> False)"

definition py_getsize :: "env \<Rightarrow> pyval \<Rightarrow> exn + nat" where
  "py_getsize E path =
     try_bind (os_stat E path) (\<lambda>entry.
       Inr (case entry of RegularFile n \<Rightarrow> n | Directory n \<Rightarrow> n | SpecialFile n \<Rightarrow> n))"

text \<open>
  The text of a path in an f-string, for the values that \<^verbatim>\<open>os.stat\<close> accepts; the text
  of another value is the interpreter's.
\<close>

definition format_path :: "env \<Rightarrow> pyval \<Rightarrow> string" where
  "format_path E path =
     (case path of
        PStr p \<Rightarrow> p
      | PInt i \<Rightarrow> int_str i
      | PBool b \<Rightarrow> (if b then ''True'' else ''False'')
      | _ \<Rightarrow> py_str E path)"

text \<open>\<^verbatim>\<open>s.rfind(c)\<close>: the last index of \<open>c\<close>, or \<open>-1\<close>.\<close>

primrec rfind_from :: "char \<Rightarrow> string \<Rightarrow> int \<Rightarrow> int \<Rightarrow> int" where
  "rfind_from c [] i best = best"
| "rfind_from c (x # xs) i best = rfind_from c xs (i + 1) (if x = c then i else best)"

definition rfind :: "string \<Rightarrow> char \<Rightarrow> int" where
  "rfind s c = rfind_from c s 0 (-1)"

text \<open>
  \<^verbatim>\<open>os.path.splitext\<close> (POSIX): the extension starts at the last dot of the last path
  component, unless only dots precede it there.
\<close>

definition os_path_splitext :: "string \<Rightarrow> string \<times> string" where
  "os_path_splitext p =
     (let sepIndex = rfind p (CHR ''/''); dotIndex = rfind p (CHR ''.'')
      in if dotIndex > sepIndex \<and>
            (\<exists>c \<in> set (take (nat (dotIndex - (sepIndex + 1))) (drop (nat (sepIndex + 1)) p)).
               c \<noteq> CHR ''.'')
         then (take (nat dotIndex) p, drop (nat dotIndex) p)
         else (p, []))"

definition os_path_basename :: "string \<Rightarrow> string" where
  "os_path_basename p = drop (nat (rfind p (CHR ''/'') + 1)) p"

definition os_path_join :: "string \<Rightarrow> string \<Rightarrow> string" where
  "os_path_join a b =
     (if b \<noteq> [] \<and> hd b = CHR ''/'' then b
      else if a = [] \<or> last a = CHR ''/'' then a @ b
      else a @ ''/'' @ b)"

text \<open>
  \<^verbatim>\<open>s.lower()\<close>, on the ASCII letters. The code compares the result with extensions made
  of the letters \<^verbatim>\<open>a c f l m p v w\<close>, and no character outside ASCII lowers to one of
  these, so the comparisons come out as with the full \<^verbatim>\<open>lower\<close>.
\<close>

definition lower_char :: "char \<Rightarrow> char" where
  "lower_char c =
     (case map_of (zip ''ABCDEFGHIJKLMNOPQRSTUVWXYZ'' ''abcdefghijklmnopqrstuvwxyz'') c of
        Some l \<Rightarrow> l
      | None \<Rightarrow> c)"

definition lower :: "string \<Rightarrow> string" where
  "lower s = map lower_char s"

subsection \<open>Backend selection\<close>

definition select_calculation_mode :: "env \<Rightarrow> string \<Rightarrow> string" where
  "select_calculation_mode E audio_path =
     (let file_ext = lower (snd (os_path_splitext audio_path))
      in if file_ext \<in> set [''.mp3'', ''.aac'', ''.m4a''] \<and> PYDUB_AVAILABLE E then ''fast''
         else if file_ext \<in> set [''.wav'', ''.flac''] \<and> LIBROSA_AVAILABLE E then ''accurate''
         else ''accurate'')"

text \<open>The three-way branch of \<^verbatim>\<open>_calculate_from_file\<close> that picks the backend to call.\<close>

datatype backend = Pydub | Librosa | FFmpeg

definition choose_backend :: "env \<Rightarrow> string \<Rightarrow> backend" where
  "choose_backend E calc_mode =
     (if calc_mode = ''fast'' \<and> PYDUB_AVAILABLE E then Pydub
      else if LIBROSA_AVAILABLE E then Librosa
      else FFmpeg)"

definition run_backend :: "env \<Rightarrow> backend \<Rightarrow> string \<Rightarrow> backend_result" where
  "run_backend E b audio_path =
     (case b of
        Pydub \<Rightarrow> calculate_with_pydub E audio_path
      | Librosa \<Rightarrow> calculate_with_librosa E audio_path
      | FFmpeg \<Rightarrow> calculate_with_ffmpeg E audio_path)"

definition remove_silence_duration :: "string \<Rightarrow> rat \<Rightarrow> rat \<Rightarrow> rat" where
  "remove_silence_duration audio_path total_duration threshold_db = total_duration"

subsection \<open>Duration of a file\<close>

text \<open>
  The path argument is whatever the caller found under \<^verbatim>\<open>file_path\<close>. A descriptor that
  passes the three tests (an open regular file that is not empty) fails at the next
  statement, where \<^verbatim>\<open>os.path.splitext\<close> raises \<^verbatim>\<open>TypeError\<close> on a value that is not a
  string.
\<close>

definition file_success ::
  "env \<Rightarrow> string \<Rightarrow> nat \<Rightarrow> string \<Rightarrow> nat \<Rightarrow> bool \<Rightarrow> rat \<Rightarrow> rat \<Rightarrow> (string \<times> pyval) list
   \<Rightarrow> exn + duration_result" where
  "file_success E p file_size calc_mode time_precision include_silence silence_threshold_db
                result_duration result_metadata =
     (let duration = (if \<not> include_silence \<and> result_duration > 0
                      then remove_silence_duration p result_duration silence_threshold_db
                      else result_duration);
          rounded_duration = py_round duration time_precision;
          formatted_duration = format_duration rounded_duration;
          metadata = dict_update result_metadata
            [(''calculation_mode'', PStr calc_mode),
             (''time_precision'', PInt (int time_precision)),
             (''include_silence'', PBool include_silence),
             (''silence_threshold_db'', PFloat silence_threshold_db),
             (''file_path'', PStr p),
             (''file_size_bytes'', PInt (int file_size))]
      in case json_dumps (PDict metadata) of
           Inl e \<Rightarrow> Inl e
         | Inr j \<Rightarrow> Inr (rounded_duration, formatted_duration, ''success'', j))"

definition calculate_from_file ::
  "env \<Rightarrow> pyval \<Rightarrow> string \<Rightarrow> nat \<Rightarrow> bool \<Rightarrow> rat \<Rightarrow> exn + duration_result" where
  "calculate_from_file E audio_path calculation_mode time_precision include_silence
                       silence_threshold_db =
     try_bind (truthy audio_path) (\<lambda>given.
       if \<not> given then Inr (error_response msg_no_path)
       else
     try_bind (py_exists E audio_path) (\<lambda>found.
       if \<not> found then Inr (error_response (msg_not_found @ format_path E audio_path))
       else
     try_bind (py_isfile E audio_path) (\<lambda>is_file.
       if \<not> is_file then Inr (error_response (msg_not_file @ format_path E audio_path))
       else
     try_bind (py_getsize E audio_path) (\<lambda>file_size.
       if file_size = 0 then Inr (error_response msg_empty_file)
       else
         (case audio_path of
            PStr p \<Rightarrow>
              let calc_mode = (if calculation_mode = ''auto''
                               then select_calculation_mode E p
                               else calculation_mode)
              in (case run_backend E (choose_backend E calc_mode) p of
                    BackendError err \<Rightarrow> Inr (error_response err)
                  | BackendSuccess duration metadata \<Rightarrow>
                      file_success E p file_size calc_mode time_precision
                        include_silence silence_threshold_db duration metadata)
          | _ \<Rightarrow> Inl TypeError)))))"

subsection \<open>The entry point\<close>

definition tensor_success ::
  "pyval \<Rightarrow> rat \<Rightarrow> nat \<Rightarrow> (string \<times> pyval) list \<Rightarrow> exn + duration_result" where
  "tensor_success waveform duration time_precision metadata =
     (let rounded_duration = py_round duration time_precision;
          formatted_duration = format_duration rounded_duration
      in case json_dumps (PDict metadata) of
           Inl e \<Rightarrow> Inl e
         | Inr j \<Rightarrow> Inr (rounded_duration, formatted_duration, ''success'', j))"

text \<open>
  The body of the \<^verbatim>\<open>try\<close> block of \<^verbatim>\<open>calculate_audio_duration\<close> for every input but a
  non-empty list (which recurses on its first element, below).
\<close>

definition duration_try ::
  "env \<Rightarrow> pyval \<Rightarrow> string \<Rightarrow> nat \<Rightarrow> bool \<Rightarrow> rat \<Rightarrow> exn + duration_result" where
  "duration_try E audio calculation_mode time_precision include_silence silence_threshold_db =
     (case audio of
        PDict d \<Rightarrow>
          if dict_has d ''waveform'' then
            let waveform = dict_get d ''waveform'' PNone;
                sample_rate = dict_get d ''sample_rate'' (PInt 24000)
            in (case calculate_duration_from_tensor waveform sample_rate of
                  Inl e \<Rightarrow> Inl e
                | Inr duration \<Rightarrow>
                    tensor_success waveform duration time_precision
                      [(''calculation_method'', PStr ''tensor_direct''),
                       (''sample_rate'', sample_rate),
                       (''waveform_shape'', waveform_shape waveform),
                       (''time_precision'', PInt (int time_precision)),
                       (''include_silence'', PBool include_silence),
                       (''silence_threshold_db'', PFloat silence_threshold_db),
                       (''total_samples'', PInt (int (get_total_samples waveform)))])
          else if dict_has d ''file_path'' then
            calculate_from_file E (dict_get d ''file_path'' PNone) calculation_mode
              time_precision include_silence silence_threshold_db
          else Inr (error_response (msg_unsupported @ type_repr audio))
      | PTensor sh es \<Rightarrow>
          (case calculate_duration_from_tensor audio (PInt 24000) of
             Inl e \<Rightarrow> Inl e
           | Inr duration \<Rightarrow>
               tensor_success audio duration time_precision
                 [(''calculation_method'', PStr ''tensor_direct''),
                  (''sample_rate'', PInt 24000),
                  (''waveform_shape'', waveform_shape audio),
                  (''time_precision'', PInt (int time_precision)),
                  (''total_samples'', PInt (int (get_total_samples audio)))])
      | PStr s \<Rightarrow>
          calculate_from_file E audio calculation_mode time_precision include_silence
            silence_threshold_db
      | _ \<Rightarrow> Inr (error_response (msg_unsupported @ type_repr audio)))"

text \<open>
  The handler \<^verbatim>\<open>except Exception\<close> that closes the entry point. The entry point returns
  a tuple or, when an exception gets past the handler, raises.
\<close>

definition duration_except :: "env \<Rightarrow> exn + duration_result \<Rightarrow> exn + duration_result" where
  "duration_except E body =
     except_Exception body (\<lambda>e. Inr (error_response (msg_exception @ exn_str E e)))"

fun calculate_audio_duration ::
  "env \<Rightarrow> pyval \<Rightarrow> string \<Rightarrow> nat \<Rightarrow> bool \<Rightarrow> rat \<Rightarrow> exn + duration_result" where
  "calculate_audio_duration E (PList (x # xs)) calculation_mode time_precision include_silence
                            silence_threshold_db =
     duration_except E
       (calculate_audio_duration E x calculation_mode time_precision include_silence
          silence_threshold_db)"
| "calculate_audio_duration E audio calculation_mode time_precision include_silence
                            silence_threshold_db =
     duration_except E
       (duration_try E audio calculation_mode time_precision include_silence
          silence_threshold_db)"

section \<open>The metadata node\<close>

subsection \<open>Locating the file of an audio reference\<close>

text \<open>
  \<^verbatim>\<open>_get_audio_path\<close> returns a path or \<^verbatim>\<open>None\<close>. The loop over the candidate keys
  of a dictionary returns the value of a key as it is when \<^verbatim>\<open>os.path.exists\<close> accepts it
  (a string, or an open file descriptor); \<^verbatim>\<open>os.path.join\<close> raises \<^verbatim>\<open>TypeError\<close> on a
  value that is not a string.
\<close>

fun get_audio_path_keys ::
  "env \<Rightarrow> (string \<times> pyval) list \<Rightarrow> string list \<Rightarrow> exn + pyval" where
  "get_audio_path_keys E d [] = Inr PNone"
| "get_audio_path_keys E d (key # keys) =
     (if dict_has d key then
        (case truthy (dict_get d key PNone) of
           Inl e \<Rightarrow> Inl e
         | Inr False \<Rightarrow> get_audio_path_keys E d keys
         | Inr True \<Rightarrow>
             (case py_exists E (dict_get d key PNone) of
                Inl e \<Rightarrow> Inl e
              | Inr True \<Rightarrow> Inr (dict_get d key PNone)
              | Inr False \<Rightarrow>
                  (case dict_get d key PNone of
                     PStr path \<Rightarrow>
                       let possible_path = os_path_join (input_directory E) path
                       in if os_path_exists E possible_path then Inr (PStr possible_path)
                          else get_audio_path_keys E d keys
                   | _ \<Rightarrow> Inl TypeError)))
      else get_audio_path_keys E d keys)"

definition get_audio_path :: "env \<Rightarrow> pyval \<Rightarrow> exn + pyval" where
  "get_audio_path E audio_input =
     (case audio_input of
        PStr s \<Rightarrow>
          Inr (case find (os_path_exists E)
                      [s,
                       os_path_join (input_directory E) s,
                       os_path_join (output_directory E) s,
                       os_path_join (temp_directory E) s] of
                 Some path \<Rightarrow> PStr path
               | None \<Rightarrow> PNone)
      | PDict d \<Rightarrow>
          get_audio_path_keys E d
            [''file_path'', ''filename'', ''path'', ''audio_path'', ''input_path'']
      | _ \<Rightarrow> Inr PNone)"

subsection \<open>In-memory buffers\<close>

text \<open>
  \<^verbatim>\<open>_get_duration_from_tensor\<close> of the metadata node: its handler turns every exception
  (no such dimension, a non-numeric or zero sample rate, not a tensor) into \<open>0.0\<close>.
\<close>

definition get_duration_from_tensor :: "pyval \<Rightarrow> pyval \<Rightarrow> rat" where
  "get_duration_from_tensor waveform sample_rate =
     (case waveform of
        PTensor sh es \<Rightarrow>
          (case (if length sh = 1 then Inr (sh ! 0)
                 else if length sh = 2 then Inr (sh ! 1)
                 else if length sh = 3 then Inr (sh ! 2)
                 else shape_last sh) of
             Inl e \<Rightarrow> 0
           | Inr num_samples \<Rightarrow>
               (case num_of sample_rate of
                  None \<Rightarrow> 0
                | Some r \<Rightarrow> if r = 0 then 0 else of_nat num_samples / r))
      | _ \<Rightarrow> 0)"

text \<open>
  The two conditional expressions of the synthesized technical record:
  \<^verbatim>\<open>waveform.shape[1] if waveform.dim() >= 2 and waveform.shape[1] <= 2 else 1\<close> and
  \<^verbatim>\<open>waveform.shape[-1] if waveform.dim() > 0 else 0\<close>.
\<close>

definition tensor_channels :: "nat list \<Rightarrow> nat" where
  "tensor_channels sh = (if length sh \<ge> 2 \<and> sh ! 1 \<le> 2 then sh ! 1 else 1)"

definition tensor_total_samples :: "nat list \<Rightarrow> nat" where
  "tensor_total_samples sh = (if length sh > 0 then last sh else 0)"

subsection \<open>The one-line summary\<close>

fun str_join :: "string \<Rightarrow> string list \<Rightarrow> string" where
  "str_join sep [] = []"
| "str_join sep [x] = x"
| "str_join sep (x # y # ys) = x @ sep @ str_join sep (y # ys)"

definition summary_duration :: "rat \<Rightarrow> string" where
  "summary_duration duration =
     (let hours = nat \<lfloor>duration / 3600\<rfloor>;
          minutes = nat \<lfloor>fmod duration 3600 / 60\<rfloor>;
          secs = fmod duration 60
      in if hours > 0
         then nat_str hours @ '':'' @ fmt_d 2 minutes @ '':'' @ fmt_f 4 1 secs
         else nat_str minutes @ '':'' @ fmt_f 4 1 secs)"

definition summary_file_part :: "env \<Rightarrow> pyval \<Rightarrow> exn + string list" where
  "summary_file_part E file_info =
     try_bind (truthy file_info) (\<lambda>t.
       if t then
         try_bind (py_get file_info ''name'' (PStr ''Unknown'')) (\<lambda>name.
         try_bind (py_get file_info ''size_mb'' (PInt 0)) (\<lambda>size_mb.
           Inr [py_str E name @ '' ('' @ py_str E size_mb @ '' MB)'']))
       else Inr [])"

definition summary_tech_part :: "env \<Rightarrow> pyval \<Rightarrow> exn + string list" where
  "summary_tech_part E tech =
     try_bind (truthy tech) (\<lambda>t.
       if t then
         try_bind (py_get tech ''duration_seconds'' (PInt 0)) (\<lambda>duration.
         try_bind (case num_of duration of
                     None \<Rightarrow> Inl TypeError
                   | Some x \<Rightarrow> Inr (if x > 0 then [''Duration: '' @ summary_duration x] else []))
           (\<lambda>dur_part.
         try_bind (py_get tech ''sample_rate'' PNone) (\<lambda>sample_rate.
         try_bind (truthy sample_rate) (\<lambda>has_rate.
         try_bind (py_get tech ''channels'' PNone) (\<lambda>ch.
         try_bind (truthy ch) (\<lambda>has_ch.
           Inr (dur_part
                @ (if has_rate then [py_str E sample_rate @ '' Hz''] else [])
                @ (if has_ch then [py_str E ch @ ''ch''] else []))))))))
       else Inr [])"

definition create_metadata_summary :: "env \<Rightarrow> (string \<times> pyval) list \<Rightarrow> exn + string" where
  "create_metadata_summary E metadata =
     try_bind (summary_file_part E (dict_get metadata ''file_info'' (PDict []))) (\<lambda>p1.
     try_bind (summary_tech_part E (dict_get metadata ''technical'' (PDict []))) (\<lambda>p2.
       Inr (str_join '' | '' (p1 @ p2))))"

subsection \<open>Files\<close>

text \<open>\<^verbatim>\<open>float(x)\<close> and \<^verbatim>\<open>int(x)\<close>; the parsing of a string is the interpreter's.\<close>

definition py_float :: "env \<Rightarrow> pyval \<Rightarrow> exn + rat" where
  "py_float E v =
     (case v of
        PBool b \<Rightarrow> Inr (if b then 1 else 0)
      | PInt i \<Rightarrow> Inr (of_int i)
      | PFloat r \<Rightarrow> Inr r
      | PStr s \<Rightarrow> (case parse_float E s of None \<Rightarrow> Inl ValueError | Some r \<Rightarrow> Inr r)
      | _ \<Rightarrow> Inl TypeError)"

definition py_int :: "env \<Rightarrow> pyval \<Rightarrow> exn + int" where
  "py_int E v =
     (case v of
        PBool b \<Rightarrow> Inr (if b then 1 else 0)
      | PInt i \<Rightarrow> Inr i
      | PFloat r \<Rightarrow> Inr (if r \<ge> 0 then \<lfloor>r\<rfloor> else \<lceil>r\<rceil>)
      | PStr s \<Rightarrow> (case parse_int E s of None \<Rightarrow> Inl ValueError | Some i \<Rightarrow> Inr i)
      | _ \<Rightarrow> Inl TypeError)"

text \<open>Iterating over a value in a comprehension.\<close>

definition py_iter :: "pyval \<Rightarrow> exn + pyval list" where
  "py_iter v =
     (case v of
        PList xs \<Rightarrow> Inr xs
      | PDict d \<Rightarrow> Inr (map (\<lambda>kv. PStr (fst kv)) d)
      | PStr s \<Rightarrow> Inr (map (\<lambda>c. PStr [c]) s)
      | _ \<Rightarrow> Inl TypeError)"

fun audio_streams_of :: "pyval list \<Rightarrow> exn + pyval list" where
  "audio_streams_of [] = Inr []"
| "audio_streams_of (s # ss) =
     try_bind (py_get s ''codec_type'' PNone) (\<lambda>t.
     try_bind (audio_streams_of ss) (\<lambda>rest.
       Inr (if t = PStr ''audio'' then s # rest else rest)))"

definition format_technical :: "env \<Rightarrow> pyval \<Rightarrow> exn + (string \<times> pyval) list" where
  "format_technical E fmt =
     try_bind (py_get fmt ''duration'' (PInt 0)) (\<lambda>dv.
     try_bind (py_float E dv) (\<lambda>duration.
     try_bind (py_get fmt ''bit_rate'' (PInt 0)) (\<lambda>bv.
     try_bind (py_int E bv) (\<lambda>bit_rate.
     try_bind (py_get fmt ''size'' (PInt 0)) (\<lambda>sv.
     try_bind (py_int E sv) (\<lambda>fsize.
       Inr [(''duration_seconds'', PFloat duration),
            (''bitrate_bps'', PInt bit_rate),
            (''size_bytes'', PInt fsize)]))))))"

definition stream_technical :: "env \<Rightarrow> pyval \<Rightarrow> exn + (string \<times> pyval) list" where
  "stream_technical E stream =
     try_bind (py_get stream ''sample_rate'' (PInt 0)) (\<lambda>rv.
     try_bind (py_int E rv) (\<lambda>sample_rate.
     try_bind (py_get stream ''channels'' (PInt 1)) (\<lambda>cv.
     try_bind (py_int E cv) (\<lambda>channels.
     try_bind (py_get stream ''codec_name'' (PStr ''unknown'')) (\<lambda>codec.
     try_bind (py_get stream ''bits_per_sample'' (PInt 0)) (\<lambda>bits.
       Inr [(''sample_rate'', PInt sample_rate),
            (''channels'', PInt channels),
            (''codec'', codec),
            (''bits_per_sample'', bits)]))))))"

definition extract_technical_metadata ::
  "env \<Rightarrow> (string \<times> pyval) list \<Rightarrow> exn + (string \<times> pyval) list" where
  "extract_technical_metadata E ffprobe_data =
     try_bind (if dict_has ffprobe_data ''format''
               then format_technical E (dict_get ffprobe_data ''format'' PNone)
               else Inr [])
       (\<lambda>tech_data.
     try_bind (py_iter (dict_get ffprobe_data ''streams'' (PList []))) (\<lambda>streams.
     try_bind (audio_streams_of streams) (\<lambda>audio_streams.
       case audio_streams of
         [] \<Rightarrow> Inr tech_data
       | stream # rest \<Rightarrow>
           try_bind (stream_technical E stream) (\<lambda>st. Inr (dict_update tech_data st)))))"

definition file_info_of :: "string \<Rightarrow> nat \<Rightarrow> string \<Rightarrow> (string \<times> pyval) list" where
  "file_info_of audio_path fsize modified =
     [(''path'', PStr audio_path),
      (''name'', PStr (os_path_basename audio_path)),
      (''size_bytes'', PInt (int fsize)),
      (''size_mb'', PFloat (py_round (of_nat fsize / (1024 * 1024)) 2)),
      (''modified'', PStr modified)]"

definition tag_keys :: "string list" where
  "tag_keys = [''format_name'', ''duration'', ''bit_rate'', ''sample_rate'', ''channels'']"

text \<open>
  The record \<^verbatim>\<open>file_info\<close> is built first, entry by entry: \<^verbatim>\<open>os.path.basename\<close> raises
  \<^verbatim>\<open>TypeError\<close> on a path that is not a string, \<^verbatim>\<open>os.path.getsize\<close> raises when the file
  cannot be read, and the conversion of the modification time raises when the time stamp is
  out of range. None of the three is inside a handler of this function. The call of
  \<^verbatim>\<open>mediainfo\<close> is inside a bare \<^verbatim>\<open>except:\<close>, which catches every exception.
\<close>

definition extract_all_metadata ::
  "env \<Rightarrow> pyval \<Rightarrow> bool \<Rightarrow> bool \<Rightarrow> bool \<Rightarrow> exn + (string \<times> pyval) list" where
  "extract_all_metadata E path extract_format extract_technical extract_tags =
     (case path of
        PStr audio_path \<Rightarrow>
          try_bind (os_path_getsize E audio_path) (\<lambda>fsize.
          try_bind (case mtime_iso E audio_path of
                      None \<Rightarrow> Inl ValueError
                    | Some modified \<Rightarrow> Inr modified) (\<lambda>modified.
            let metadata = [(''file_info'', PDict (file_info_of audio_path fsize modified))]
            in try_bind
                 (if extract_format \<or> extract_technical then
                    let ffprobe_data = get_ffprobe_metadata E audio_path;
                        metadata1 = (if extract_format
                                     then dict_set metadata ''format''
                                            (dict_get ffprobe_data ''format'' (PDict []))
                                     else metadata)
                    in if extract_technical
                       then try_bind (extract_technical_metadata E ffprobe_data) (\<lambda>tech.
                              Inr (dict_set metadata1 ''technical'' (PDict tech)))
                       else Inr metadata1
                  else Inr metadata)
                 (\<lambda>metadata2.
                    Inr (if extract_tags \<and> PYDUB_AVAILABLE E
                         then dict_set metadata2 ''tags''
                                (case mediainfo E audio_path of
                                   Inl e \<Rightarrow> PDict []
                                 | Inr info \<Rightarrow>
                                     PDict (filter (\<lambda>kv. fst kv \<notin> set tag_keys) info))
                         else metadata2))))
      | _ \<Rightarrow> Inl TypeError)"

subsection \<open>The entry point\<close>

type_synonym metadata_result = "pyval \<times> string \<times> pyval \<times> rat"

definition tensor_metadata ::
  "nat list \<Rightarrow> nat \<Rightarrow> pyval \<Rightarrow> rat \<Rightarrow> (string \<times> pyval) list" where
  "tensor_metadata sh es sample_rate duration =
     [(''format'', PDict [(''format_name'', PStr ''tensor''), (''sample_rate'', sample_rate)]),
      (''technical'',
         PDict [(''duration_seconds'', PFloat duration),
                (''sample_rate'', sample_rate),
                (''channels'', PInt (int (tensor_channels sh))),
                (''total_samples'', PInt (int (tensor_total_samples sh)))]),
      (''file_info'',
         PDict [(''name'', PStr ''audio_tensor''),
                (''size_bytes'', PInt (int (es * prod_list sh)))])]"

definition metadata_not_found :: metadata_result where
  "metadata_not_found = (PDict [], ''Error: Audio file not found'', PStr ''unknown'', 0)"

definition metadata_from_file ::
  "env \<Rightarrow> pyval \<Rightarrow> bool \<Rightarrow> bool \<Rightarrow> bool \<Rightarrow> exn + metadata_result" where
  "metadata_from_file E audio extract_format extract_technical extract_tags =
     try_bind (get_audio_path E audio) (\<lambda>audio_path.
     try_bind (truthy audio_path) (\<lambda>given.
       if \<not> given then Inr metadata_not_found
       else
     try_bind (py_exists E audio_path) (\<lambda>found.
       if \<not> found then Inr metadata_not_found
       else
         try_bind (extract_all_metadata E audio_path extract_format extract_technical
                     extract_tags) (\<lambda>metadata.
         try_bind (create_metadata_summary E metadata) (\<lambda>summary.
         try_bind (py_get (dict_get metadata ''format'' (PDict [])) ''format_name''
                     (PStr ''unknown'')) (\<lambda>audio_format.
         try_bind (py_get (dict_get metadata ''technical'' (PDict [])) ''duration_seconds''
                     (PFloat 0)) (\<lambda>duration.
         try_bind (json_dumps (PDict metadata)) (\<lambda>j.
         try_bind (py_float E duration) (\<lambda>d.
           Inr (j, summary, audio_format, d))))))))))"

text \<open>The body of the \<^verbatim>\<open>try\<close> block of \<^verbatim>\<open>extract_audio_metadata\<close>.\<close>

definition metadata_try ::
  "env \<Rightarrow> pyval \<Rightarrow> bool \<Rightarrow> bool \<Rightarrow> bool \<Rightarrow> exn + metadata_result" where
  "metadata_try E audio extract_format extract_technical extract_tags =
     (case audio of
        PDict d \<Rightarrow>
          if dict_has d ''waveform'' then
            let waveform = dict_get d ''waveform'' PNone;
                sample_rate = dict_get d ''sample_rate'' (PInt 24000);
                duration = get_duration_from_tensor waveform sample_rate
            in (case waveform of
                  PTensor sh es \<Rightarrow>
                    let metadata = tensor_metadata sh es sample_rate duration
                    in try_bind (create_metadata_summary E metadata) (\<lambda>summary.
                       try_bind (json_dumps (PDict metadata)) (\<lambda>j.
                         Inr (j, summary, PStr ''tensor'', duration)))
                | _ \<Rightarrow> Inl AttributeError)
          else metadata_from_file E audio extract_format extract_technical extract_tags
      | _ \<Rightarrow> metadata_from_file E audio extract_format extract_technical extract_tags)"

text \<open>The entry point: the body, closed by the handler \<^verbatim>\<open>except Exception\<close>.\<close>

definition extract_audio_metadata ::
  "env \<Rightarrow> pyval \<Rightarrow> bool \<Rightarrow> bool \<Rightarrow> bool \<Rightarrow> exn + metadata_result" where
  "extract_audio_metadata E audio extract_format extract_technical extract_tags =
     except_Exception
       (metadata_try E audio extract_format extract_technical extract_tags)
       (\<lambda>e. Inr (PDict [], ''Error: '' @ exn_str E e, PStr ''error'', 0))"

text \<open>Reading a field of a serialised record, along a path of keys.\<close>

fun json_path :: "pyval \<Rightarrow> string list \<Rightarrow> pyval option" where
  "json_path v [] = Some v"
| "json_path (PDict d) (k # ks) =
     (case map_of d k of None \<Rightarrow> None | Some v \<Rightarrow> json_path v ks)"
| "json_path v (k # ks) = None"

definition top_level_keys :: "pyval \<Rightarrow> string list" where
  "top_level_keys v = (case v of PDict d \<Rightarrow> map fst d | _ \<Rightarrow> [])"

section \<open>The batch node\<close>

subsection \<open>File discovery\<close>

text \<open>\<^verbatim>\<open>s.split(',')\<close>.\<close>

fun split_on :: "char \<Rightarrow> string \<Rightarrow> string list" where
  "split_on c [] = [[]]"
| "split_on c (x # xs) =
     (if x = c then [] # split_on c xs
      else (case split_on c xs of
              [] \<Rightarrow> [[x]]
            | w # ws \<Rightarrow> (x # w) # ws))"

text \<open>
  \<^verbatim>\<open>s.strip()\<close> removes the white space of Unicode at both ends. The characters are, in
  UTF-8: the ASCII ones (space, \<open>09\<close> to \<open>0D\<close>, \<open>1C\<close> to \<open>1F\<close>), U+0085, U+00A0, U+1680,
  U+2000 to U+200A, U+2028, U+2029, U+202F, U+205F and U+3000. In a well-formed UTF-8 text
  the bytes of one of these at the end of the text are that character.
\<close>

definition white_space :: "string list" where
  "white_space =
     [[CHR '' ''], [CHR 0x09], [CHR 0x0A], [CHR 0x0B], [CHR 0x0C], [CHR 0x0D],
      [CHR 0x1C], [CHR 0x1D], [CHR 0x1E], [CHR 0x1F],
      [CHR 0xC2, CHR 0x85], [CHR 0xC2, CHR 0xA0],
      [CHR 0xE1, CHR 0x9A, CHR 0x80],
      [CHR 0xE2, CHR 0x80, CHR 0x80], [CHR 0xE2, CHR 0x80, CHR 0x81],
      [CHR 0xE2, CHR 0x80, CHR 0x82], [CHR 0xE2, CHR 0x80, CHR 0x83],
      [CHR 0xE2, CHR 0x80, CHR 0x84], [CHR 0xE2, CHR 0x80, CHR 0x85],
      [CHR 0xE2, CHR 0x80, CHR 0x86], [CHR 0xE2, CHR 0x80, CHR 0x87],
      [CHR 0xE2, CHR 0x80, CHR 0x88], [CHR 0xE2, CHR 0x80, CHR 0x89],
      [CHR 0xE2, CHR 0x80, CHR 0x8A],
      [CHR 0xE2, CHR 0x80, CHR 0xA8], [CHR 0xE2, CHR 0x80, CHR 0xA9],
      [CHR 0xE2, CHR 0x80, CHR 0xAF], [CHR 0xE2, CHR 0x81, CHR 0x9F],
      [CHR 0xE3, CHR 0x80, CHR 0x80]]"

text \<open>The number of bytes of the white-space character a text starts with, or \<open>0\<close>.\<close>

definition space_width :: "string list \<Rightarrow> string \<Rightarrow> nat" where
  "space_width spaces s =
     (case find (\<lambda>w. take (length w) s = w) spaces of
        Some w \<Rightarrow> length w
      | None \<Rightarrow> 0)"

fun lstrip :: "string list \<Rightarrow> string \<Rightarrow> string" where
  "lstrip spaces [] = []"
| "lstrip spaces (c # cs) =
     (if space_width spaces (c # cs) = 0 then c # cs
      else lstrip spaces (drop (space_width spaces (c # cs) - 1) cs))"

definition strip :: "string \<Rightarrow> string" where
  "strip s = rev (lstrip (map rev white_space) (rev (lstrip white_space s)))"

text \<open>
  The paths collected by \<^verbatim>\<open>_find_audio_files\<close> before duplicates are removed: for a
  recursive scan, every directory of the walk against every pattern; otherwise one
  \<^verbatim>\<open>glob\<close> per pattern.
\<close>

definition candidate_files :: "env \<Rightarrow> string \<Rightarrow> string \<Rightarrow> bool \<Rightarrow> string list" where
  "candidate_files E directory pattern recursive =
     (let patterns = map strip (split_on (CHR '','') pattern)
      in if recursive
         then concat (map (\<lambda>walked.
                 concat (map (\<lambda>file_pattern.
                    map (os_path_join (fst walked))
                        (filter (\<lambda>f. fnmatch E f file_pattern) (snd walked)))
                  patterns))
               (os_walk E directory))
         else concat (map (\<lambda>file_pattern. glob_glob E (os_path_join directory file_pattern))
                        patterns))"

text \<open>
  \<^verbatim>\<open>_find_audio_files\<close> ends with \<^verbatim>\<open>sorted(list(set(audio_files)))\<close>. The pattern must
  have the method \<^verbatim>\<open>split\<close> of a string (that of a tensor raises \<^verbatim>\<open>TypeError\<close> on the
  argument); \<^verbatim>\<open>os.walk\<close> and \<^verbatim>\<open>os.path.join\<close> raise \<^verbatim>\<open>TypeError\<close> on a directory
  that is not a string (an open descriptor of a directory, which \<^verbatim>\<open>os.path.isdir\<close>
  accepts).
\<close>

definition find_audio_files :: "env \<Rightarrow> pyval \<Rightarrow> pyval \<Rightarrow> bool \<Rightarrow> exn + string list" where
  "find_audio_files E directory pattern recursive =
     (case pattern of
        PStr pat \<Rightarrow>
          (case directory of
             PStr dir \<Rightarrow> Inr (sort (remdups (candidate_files E dir pat recursive)))
           | _ \<Rightarrow> Inl TypeError)
      | PTensor sh es \<Rightarrow> Inl TypeError
      | _ \<Rightarrow> Inl AttributeError)"

subsection \<open>One file\<close>

text \<open>
  \<^verbatim>\<open>_process_single_file\<close>: the call of \<^verbatim>\<open>os.path.getsize\<close> that builds the record is
  outside every handler of the function; each of the two inner calls sits in a handler
  \<^verbatim>\<open>except Exception\<close> of its own, which records the text of the exception under a key of
  the record.
\<close>

definition process_single_file ::
  "env \<Rightarrow> string \<Rightarrow> string \<Rightarrow> exn + (string \<times> pyval) list" where
  "process_single_file E audio_file operation =
     try_bind (os_path_getsize E audio_file) (\<lambda>fsize.
       let result = [(''file'', PStr audio_file),
                     (''filename'', PStr (os_path_basename audio_file)),
                     (''size_bytes'', PInt (int fsize)),
                     (''status'', PStr ''success'')]
       in
     try_bind
       (if operation \<in> set [''duration'', ''both''] then
          except_Exception
            (try_bind (calculate_audio_duration E (PDict [(''file_path'', PStr audio_file)])
                         ''auto'' 3 True (- 60)) (\<lambda>duration_result.
               Inr (dict_set
                      (dict_set result ''duration_seconds'' (PFloat (fst duration_result)))
                      ''duration_formatted'' (PStr (fst (snd duration_result))))))
            (\<lambda>e. Inr (dict_set result ''duration_error'' (PStr (exn_str E e))))
        else Inr result) (\<lambda>result1.
       if operation \<in> set [''metadata'', ''both''] then
         except_Exception
           (try_bind (extract_audio_metadata E (PDict [(''file_path'', PStr audio_file)])
                        True True False) (\<lambda>meta_result.
              Inr (dict_set result1 ''metadata'' (fst meta_result))))
           (\<lambda>e. Inr (dict_set result1 ''metadata_error'' (PStr (exn_str E e))))
       else Inr result1))"

text \<open>
  The loop of \<^verbatim>\<open>process_audio_batch\<close>: the record of one file is the result of
  \<^verbatim>\<open>_process_single_file\<close> or, when that raises, the record made by the handler
  \<^verbatim>\<open>except Exception\<close> of the loop.
\<close>

definition file_record :: "env \<Rightarrow> string \<Rightarrow> string \<Rightarrow> exn + (string \<times> pyval) list" where
  "file_record E operation audio_file =
     except_Exception (process_single_file E audio_file operation)
       (\<lambda>e. Inr [(''file'', PStr audio_file),
                  (''error'', PStr (exn_str E e)),
                  (''status'', PStr ''failed'')])"

fun process_files ::
  "env \<Rightarrow> string \<Rightarrow> string list \<Rightarrow> exn + (string \<times> pyval) list list" where
  "process_files E operation [] = Inr []"
| "process_files E operation (audio_file # audio_files) =
     (case file_record E operation audio_file of
        Inl e \<Rightarrow> Inl e
      | Inr file_result \<Rightarrow>
          (case process_files E operation audio_files of
             Inl e \<Rightarrow> Inl e
           | Inr results \<Rightarrow> Inr (file_result # results)))"

subsection \<open>The summary\<close>

definition is_success :: "(string \<times> pyval) list \<Rightarrow> bool" where
  "is_success r = (map_of r ''status'' = Some (PStr ''success''))"

fun sum_durations :: "(string \<times> pyval) list list \<Rightarrow> exn + rat" where
  "sum_durations [] = Inr 0"
| "sum_durations (r # rs) =
     (case map_of r ''duration_seconds'' of
        None \<Rightarrow> sum_durations rs
      | Some v \<Rightarrow>
          (case num_of v of
             None \<Rightarrow> Inl TypeError
           | Some x \<Rightarrow> try_bind (sum_durations rs) (\<lambda>s. Inr (x + s))))"

definition total_duration_str :: "rat \<Rightarrow> string" where
  "total_duration_str total_duration =
     (if total_duration < 60 then fmt_f 0 1 total_duration @ ''s''
      else if total_duration < 3600 then fmt_f 0 1 (total_duration / 60) @ ''m''
      else fmt_f 0 1 (total_duration / 3600) @ ''h'')"

definition create_batch_summary ::
  "(string \<times> pyval) list list \<Rightarrow> string \<Rightarrow> exn + string" where
  "create_batch_summary results operation =
     (let total = length results;
          successful = length (filter is_success results)
      in if operation \<in> set [''duration'', ''both''] then
           try_bind (sum_durations results) (\<lambda>total_duration.
             Inr (''Processed '' @ nat_str successful @ ''/'' @ nat_str total @ '' files | ''
                  @ ''Total duration: '' @ total_duration_str total_duration))
         else Inr (''Processed '' @ nat_str successful @ ''/'' @ nat_str total @ '' files''))"

subsection \<open>The entry point\<close>

type_synonym batch_result = "pyval \<times> string \<times> pyval"

definition batch_not_found :: batch_result where
  "batch_not_found = (PDict [], ''Error: Directory not found'', PList [])"

text \<open>The body of the \<^verbatim>\<open>try\<close> block of \<^verbatim>\<open>process_audio_batch\<close>.\<close>

definition batch_try :: "env \<Rightarrow> pyval \<Rightarrow> pyval \<Rightarrow> string \<Rightarrow> bool \<Rightarrow> exn + batch_result" where
  "batch_try E directory_path file_pattern operation recursive =
     try_bind (truthy directory_path) (\<lambda>given.
       if \<not> given then Inr batch_not_found
       else
     try_bind (py_isdir E directory_path) (\<lambda>is_dir.
       if \<not> is_dir then Inr batch_not_found
       else
     try_bind (find_audio_files E directory_path file_pattern recursive) (\<lambda>audio_files.
       if audio_files = [] then Inr (PDict [], ''No audio files found'', PList [])
       else
     try_bind (process_files E operation audio_files) (\<lambda>results.
     try_bind (create_batch_summary results operation) (\<lambda>summary.
     try_bind (json_dumps (PList (map PDict results))) (\<lambda>results_json.
     try_bind (json_dumps (PList (map PStr audio_files))) (\<lambda>file_list.
       Inr (results_json, summary, file_list))))))))"

text \<open>The entry point: the body, closed by the handler \<^verbatim>\<open>except Exception\<close>.\<close>

definition process_audio_batch ::
  "env \<Rightarrow> pyval \<Rightarrow> pyval \<Rightarrow> string \<Rightarrow> bool \<Rightarrow> exn + batch_result" where
  "process_audio_batch E directory_path file_pattern operation recursive =
     except_Exception (batch_try E directory_path file_pattern operation recursive)
       (\<lambda>e. Inr (PDict [], ''Error: '' @ exn_str E e, PList []))"

section \<open>A concrete environment\<close>

text \<open>
  An input directory with three audio files (one of them empty) and a text file, and an
  output directory with one audio file whose modification time is out of range; the standard
  streams are the open descriptors; only the first library is installed. It serves to run
  the definitions on concrete inputs.
\<close>

definition fs0 :: "string \<Rightarrow> fs_entry option" where
  "fs0 p =
     (if p = ''/in'' then Some (Directory 4096)
      else if p = ''/in/a.mp3'' then Some (RegularFile 1000)
      else if p = ''/in/b.wav'' then Some (RegularFile 2000)
      else if p = ''/in/c.flac'' then Some (RegularFile 0)
      else if p = ''/in/d.txt'' then Some (RegularFile 10)
      else if p = ''/out'' then Some (Directory 4096)
      else if p = ''/out/old.wav'' then Some (RegularFile 500)
      else None)"

text \<open>A matcher for the patterns \<^verbatim>\<open>*suffix\<close> and for literal names.\<close>

definition fnmatch0 :: "string \<Rightarrow> string \<Rightarrow> bool" where
  "fnmatch0 name pat =
     (case pat of
        [] \<Rightarrow> name = []
      | c # suffix \<Rightarrow>
          if c = CHR ''*''
          then length suffix \<le> length name \<and> drop (length name - length suffix) name = suffix
          else name = pat)"

text \<open>
  The text of a string and of an integer as the interpreter gives it; a placeholder for every
  other value.
\<close>

definition str0 :: "pyval \<Rightarrow> string" where
  "str0 v = (case v of PStr s \<Rightarrow> s | PInt i \<Rightarrow> int_str i | _ \<Rightarrow> ''<value>'')"

definition env0 :: env where
  "env0 =
     \<lparr> PYDUB_AVAILABLE = True,
       LIBROSA_AVAILABLE = False,
       fs = fs0,
       fd_table = (\<lambda>fd. if fd \<in> set [0, 1, 2] then Some (SpecialFile 0) else None),
       mtime_iso = (\<lambda>p. if p = ''/out/old.wav'' then None else Some ''2024-01-01T00:00:00''),
       input_directory = ''/in'',
       output_directory = ''/out'',
       temp_directory = ''/tmp'',
       calculate_with_pydub = (\<lambda>p. BackendSuccess (5 / 2) [(''method'', PStr ''pydub'')]),
       calculate_with_librosa = (\<lambda>p. BackendSuccess 3 [(''method'', PStr ''librosa'')]),
       calculate_with_ffmpeg = (\<lambda>p. BackendError ''FFprobe timeout''),
       get_ffprobe_metadata = (\<lambda>p. [(''format'', PDict []), (''streams'', PList [])]),
       mediainfo = (\<lambda>p. Inl OSError),
       os_walk = (\<lambda>d. if d = ''/in''
                       then [(''/in'', [''a.mp3'', ''b.wav'', ''c.flac'', ''d.txt''])]
                       else []),
       glob_glob = (\<lambda>p. []),
       fnmatch = fnmatch0,
       exn_str = (\<lambda>e. ''exception''),
       py_str = str0,
       parse_float = (\<lambda>s. None),
       parse_int = (\<lambda>s. None) \<rparr>"

section \<open>Properties of the duration formatting\<close>

lemma is_digit_digit_char: "d < 10 \<Longrightarrow> is_digit (digit_char d)"
proof -
  assume "d < 10"
  then have "d \<in> {0,1,2,3,4,5,6,7,8,9}" by auto
  then show ?thesis by (auto simp: is_digit_def digit_char_def)
qed

lemma nat_str_lt10: "n < 10 \<Longrightarrow> nat_str n = [digit_char n]"
  by (subst nat_str.simps) simp

lemma nat_str_ge10: "10 \<le> n \<Longrightarrow> nat_str n = nat_str (n div 10) @ [digit_char (n mod 10)]"
  by (subst nat_str.simps) simp

lemma nat_str_lt100: "10 \<le> n \<Longrightarrow> n < 100 \<Longrightarrow> nat_str n = [digit_char (n div 10), digit_char (n mod 10)]"
  by (subst nat_str.simps) (simp add: nat_str_lt10)

lemma nat_str_lt1000:
  "100 \<le> n \<Longrightarrow> n < 1000 \<Longrightarrow>
   nat_str n = [digit_char (n div 100), digit_char (n div 10 mod 10), digit_char (n mod 10)]"
  by (subst nat_str.simps) (simp add: nat_str_lt100 div_mult2_eq[symmetric])

lemma digit_char_0: "digit_char 0 = CHR ''0''"
  by (simp add: digit_char_def)

lemma replicate_2: "replicate 2 x = [x, x]"
  by (simp add: numeral_2_eq_2)

lemma fmt_d_2: "n < 100 \<Longrightarrow> fmt_d 2 n = [digit_char (n div 10), digit_char (n mod 10)]"
  by (cases "n < 10") (simp_all add: fmt_d_def zfill_def nat_str_lt10 nat_str_lt100 digit_char_0)

lemma zfill_3: 
  "n < 1000 \<Longrightarrow> zfill 3 (nat_str n) = [digit_char (n div 100), digit_char (n div 10 mod 10), digit_char (n mod 10)]"
proof -
  assume n: "n < 1000"
  consider "n < 10" | "10 \<le> n" "n < 100" | "100 \<le> n" by linarith
  then show ?thesis
  proof cases
    case 1 then show ?thesis by (simp add: zfill_def nat_str_lt10 digit_char_0 replicate_2)
  next
    case 2 then show ?thesis by (simp add: zfill_def nat_str_lt100 digit_char_0)
  next
    case 3 with n show ?thesis by (simp add: zfill_def nat_str_lt1000)
  qed
qed

lemma round_half_even_bounds: "of_int \<lfloor>x\<rfloor> \<le> (of_int (round_half_even x) :: rat) \<and> round_half_even x \<le> \<lfloor>x\<rfloor> + 1"
  by (simp add: round_half_even_def Let_def)

lemma round_half_even_nonneg: "0 \<le> x \<Longrightarrow> 0 \<le> round_half_even x"
  by (simp add: round_half_even_def Let_def)

lemma round_half_even_le: "x < of_int k \<Longrightarrow> round_half_even x \<le> k"
proof -
  assume "x < of_int k"
  then have "\<lfloor>x\<rfloor> < k" by (simp add: floor_less_iff)
  moreover have "round_half_even x \<le> \<lfloor>x\<rfloor> + 1" by (simp add: round_half_even_def Let_def)
  ultimately show ?thesis by linarith
qed

lemma fmod_bounds: "0 < m \<Longrightarrow> 0 \<le> fmod x m \<and> fmod x m < m"
proof -
  assume m: "0 < m"
  have a: "of_int \<lfloor>x / m\<rfloor> \<le> x / m" by simp
  have b: "x / m < of_int \<lfloor>x / m\<rfloor> + 1" by linarith
  have c: "m * (x / m) = x" using m by simp
  have "m * of_int \<lfloor>x / m\<rfloor> \<le> m * (x / m)"
    using m by (intro mult_left_mono a) simp
  moreover have "m * (x / m) < m * (of_int \<lfloor>x / m\<rfloor> + 1)"
    by (rule mult_strict_left_mono[OF b m])
  ultimately show ?thesis unfolding c by (simp add: fmod_def algebra_simps)
qed

lemma fmt_f_6_3:
  assumes "0 \<le> x" "x < 60"
  shows "\<exists>a b c d e. a < 10 \<and> b < 10 \<and> c < 10 \<and> d < 10 \<and> e < 10 \<and>
     fmt_f 6 3 x = [digit_char a, digit_char b, CHR ''.'', digit_char c, digit_char d, digit_char e]"
proof -
  define m where "m = nat \<bar>round_half_even (x * 10 ^ 3)\<bar>"
  have "x * 10 ^ 3 < of_int 60000" using assms by simp
  then have "round_half_even (x * 10 ^ 3) \<le> 60000" by (rule round_half_even_le)
  moreover have "0 \<le> round_half_even (x * 10 ^ 3)" using assms by (intro round_half_even_nonneg) simp
  ultimately have m: "m \<le> 60000" by (simp add: m_def)
  then have hi: "m div 1000 < 100" by simp
  have lo: "m mod 1000 < 1000" by simp
  have "fmt_f 6 3 x = zfill 6 (nat_str (m div 1000) @ ''.'' @ zfill 3 (nat_str (m mod 1000)))"
    using assms by (simp add: fmt_f_def m_def Let_def)
  also have "\<dots> = fmt_d 2 (m div 1000) @ ''.'' @ zfill 3 (nat_str (m mod 1000))"
    unfolding zfill_3[OF lo] using hi
    by (cases "m div 1000 < 10") (simp_all add: zfill_def fmt_d_def nat_str_lt10 nat_str_lt100)
  finally have "fmt_f 6 3 x = [digit_char (m div 1000 div 10), digit_char (m div 1000 mod 10), CHR ''.'',
      digit_char (m mod 1000 div 100), digit_char (m mod 1000 div 10 mod 10), digit_char (m mod 1000 mod 10)]"
    using hi by (simp add: fmt_d_2 zfill_3[OF lo])
  moreover have "m div 1000 div 10 < 10" using hi by simp
  moreover have "m mod 1000 div 100 < 10" by simp
  ultimately show ?thesis by (metis mod_less_divisor zero_less_numeral)
qed

lemma format_duration_no_hours:
  assumes "0 < seconds" "\<lfloor>seconds / 3600\<rfloor> = 0"
  shows "format_duration seconds =
           fmt_d 2 (nat \<lfloor>fmod seconds 3600 / 60\<rfloor>) @ '':'' @ fmt_f 6 3 (fmod seconds 60)"
  using assms by (simp add: format_duration_def Let_def)

lemma minutes_bound: "nat \<lfloor>fmod seconds 3600 / 60\<rfloor> < 60"
proof -
  have "fmod seconds 3600 < 3600" "0 \<le> fmod seconds 3600" using fmod_bounds[of 3600 seconds] by simp_all
  then have "fmod seconds 3600 / 60 < of_int 60" by simp
  then have "\<lfloor>fmod seconds 3600 / 60\<rfloor> < 60" by (simp only: floor_less_iff)
  then show ?thesis by arith
qed

text \<open>
  Claim C7. \<^verbatim>\<open>_format_duration\<close> returns exactly \<^verbatim>\<open>00:00:00.000\<close> for 0 seconds and
  \<^verbatim>\<open>00:05.500\<close> for 5.5 seconds; for every positive duration whose hour component is
  zero it omits the hour field: the result is the two-digit minutes, a colon and the
  seconds with three decimals, of the shape \<^verbatim>\<open>MM:SS.mmm\<close>.
\<close>

theorem format_duration_forms:
  assumes "0 < seconds" and "\<lfloor>seconds / 3600\<rfloor> = 0"
  shows "format_duration 0 = ''00:00:00.000'' \<and>
         format_duration (11 / 2) = ''00:05.500'' \<and>
         mm_ss_mmm (format_duration seconds) \<and>
         format_duration seconds =
           fmt_d 2 (nat \<lfloor>fmod seconds 3600 / 60\<rfloor>) @ '':'' @ fmt_f 6 3 (fmod seconds 60)"
proof -
  have z: "format_duration 0 = ''00:00:00.000''" by (simp add: format_duration_def)
  have e: "format_duration (11 / 2) = ''00:05.500''" by code_simp
  note f = format_duration_no_hours[OF assms]
  let ?mi = "nat \<lfloor>fmod seconds 3600 / 60\<rfloor>"
  have mi: "?mi < 100" using minutes_bound[of seconds] by simp
  have s: "0 \<le> fmod seconds 60" "fmod seconds 60 < 60" using fmod_bounds[of 60 seconds] by simp_all
  from fmt_f_6_3[OF s] obtain a b c d e where
    d: "a < 10" "b < 10" "c < 10" "d < 10" "e < 10" and
    ff: "fmt_f 6 3 (fmod seconds 60) = [digit_char a, digit_char b, CHR ''.'', digit_char c, digit_char d, digit_char e]"
    by blast
  have "?mi div 10 < 10" using mi by simp
  moreover have "?mi mod 10 < 10" by simp
  ultimately have "mm_ss_mmm (format_duration seconds)"
    using d by (simp add: f ff fmt_d_2[OF mi] mm_ss_mmm_def is_digit_digit_char)
  with z e f show ?thesis by simp
qed

theorem format_duration_forms_witness:
  "(0::rat) < 11 / 2 \<and> \<lfloor>(11 / 2 :: rat) / 3600\<rfloor> = 0 \<and> mm_ss_mmm (format_duration (11 / 2)) \<and>
   format_duration (11 / 2) = ''00:05.500''"
proof -
  have h1: "(0::rat) < 11 / 2" by simp
  have h2: "\<lfloor>(11 / 2 :: rat) / 3600\<rfloor> = 0" by (simp add: floor_eq_iff)
  show ?thesis using h1 h2 format_duration_forms[OF h1 h2] by blast
qed

section \<open>Properties of the buffer duration\<close>



section \<open>Exceptions that a handler contains\<close>

lemma contained_Inr [simp]: "contained (Inr x)"
  by (simp add: contained_def)

lemma contained_Inl [simp]: "contained (Inl e) = is_Exception e"
  by (simp add: contained_def)

lemma contained_try_bind:
  "contained m \<Longrightarrow> (\<And>x. m = Inr x \<Longrightarrow> contained (f x)) \<Longrightarrow> contained (try_bind m f)"
  by (cases m) simp_all

lemma contained_except_Exception:
  "(\<And>e. body = Inl e \<Longrightarrow> is_Exception e \<Longrightarrow> contained (handler e)) \<Longrightarrow>
   contained (except_Exception body handler) = contained body"
  by (cases body) (auto simp add: except_Exception_def)

lemma except_Exception_returns:
  "contained body \<Longrightarrow> \<exists>r. except_Exception body (\<lambda>e. Inr (h e)) = Inr r"
  by (cases body) (auto simp add: except_Exception_def)

lemma except_Exception_Inr [simp]: "except_Exception (Inr v) handler = Inr v"
  by (simp add: except_Exception_def)

lemma except_Exception_Inl:
  "is_Exception e \<Longrightarrow> except_Exception (Inl e) handler = handler e"
  by (simp add: except_Exception_def)

lemma except_Exception_passes:
  "\<not> is_Exception e \<Longrightarrow> except_Exception (Inl e) handler = Inl e"
  by (simp add: except_Exception_def)

subsection \<open>Values and files\<close>

lemma contained_truthy: "contained (truthy v)"
  by (cases v) simp_all

lemma contained_json_dumps: "contained (json_dumps v)"
  by (simp add: json_dumps_def)

lemma contained_py_get: "contained (py_get x k dflt)"
  by (cases x) (simp_all add: py_get_def)

lemma contained_os_fstat: "contained (os_fstat E fd)"
  by (simp add: os_fstat_def split: option.splits)

lemma contained_os_stat: "contained (os_stat E path)"
  by (cases path) (simp_all add: os_stat_def contained_os_fstat split: option.splits)

lemma contained_stat_test: "contained (stat_test E path test)"
  using contained_os_stat[of E path]
  by (cases "os_stat E path") (auto simp add: stat_test_def)

lemma contained_py_getsize: "contained (py_getsize E path)"
  unfolding py_getsize_def by (intro contained_try_bind contained_os_stat) simp

lemma contained_os_path_getsize: "contained (os_path_getsize E p)"
  by (simp add: os_path_getsize_def split: option.splits fs_entry.splits)

subsection \<open>The duration node\<close>

lemma contained_tensor_try: "contained (tensor_try sh sample_rate)"
  by (simp add: tensor_try_def num_samples_of_def shape_last_def split: option.splits)

lemma contained_calculate_duration_from_tensor:
  "contained (calculate_duration_from_tensor waveform sample_rate)"
proof (cases waveform)
  case (PTensor sh es)
  show ?thesis
    unfolding PTensor calculate_duration_from_tensor_def pyval.case
    using contained_tensor_try[of sh sample_rate]
    by (cases "tensor_try sh sample_rate")
       (auto simp add: except_Exception_def split: option.splits)
qed (simp_all add: calculate_duration_from_tensor_def)

lemma contained_tensor_success: "contained (tensor_success w d tp md)"
  by (simp add: tensor_success_def Let_def json_dumps_def)

lemma contained_file_success: "contained (file_success E p n c tp inc thr d md)"
  by (simp add: file_success_def Let_def json_dumps_def)

lemma contained_calculate_from_file:
  "contained (calculate_from_file E audio_path calculation_mode tp inc thr)"
  unfolding calculate_from_file_def py_exists_def py_isfile_def
  by (auto intro!: contained_try_bind contained_truthy contained_stat_test contained_py_getsize
        simp add: Let_def contained_file_success split: pyval.splits backend_result.splits)

lemma contained_duration_try:
  "contained (duration_try E audio calculation_mode tp inc thr)"
proof -
  have t: "\<And>w sr md. contained (case calculate_duration_from_tensor w sr of
                 Inl e \<Rightarrow> Inl e
               | Inr duration \<Rightarrow> tensor_success w duration tp md)"
    subgoal for w sr md
      using contained_calculate_duration_from_tensor[of w sr]
      by (cases "calculate_duration_from_tensor w sr") (simp_all add: contained_tensor_success)
    done
  show ?thesis
    by (cases audio) (simp_all add: duration_try_def Let_def t contained_calculate_from_file)
qed

lemma duration_except_returns:
  "contained body \<Longrightarrow> \<exists>r. duration_except E body = Inr r"
  unfolding duration_except_def by (rule except_Exception_returns)

lemma calculate_audio_duration_returns:
  "\<exists>r. calculate_audio_duration E audio calculation_mode tp inc thr = Inr r"
proof (induction E audio calculation_mode tp inc thr rule: calculate_audio_duration.induct)
  case (1 E x xs calculation_mode tp inc thr)
  then obtain r where "calculate_audio_duration E x calculation_mode tp inc thr = Inr r" by blast
  then have "calculate_audio_duration E (PList (x # xs)) calculation_mode tp inc thr = Inr r"
    by (simp add: duration_except_def)
  then show ?case by (rule exI)
qed (simp_all only: calculate_audio_duration.simps duration_except_returns
       contained_duration_try)

subsection \<open>The metadata node\<close>

lemma contained_if:
  "(c \<Longrightarrow> contained a) \<Longrightarrow> (\<not> c \<Longrightarrow> contained b) \<Longrightarrow> contained (if c then a else b)"
  by simp

lemma contained_py_float: "contained (py_float E v)"
  by (cases v) (simp_all add: py_float_def split: option.splits)

lemma contained_py_int: "contained (py_int E v)"
  by (cases v) (simp_all add: py_int_def split: option.splits)

lemma contained_py_iter: "contained (py_iter v)"
  by (cases v) (simp_all add: py_iter_def)

lemma contained_audio_streams_of: "contained (audio_streams_of ss)"
  by (induction ss) (auto intro!: contained_try_bind contained_py_get)

lemma contained_format_technical: "contained (format_technical E fmt)"
  unfolding format_technical_def
  by (intro contained_try_bind contained_py_get contained_py_float contained_py_int
        contained_Inr)

lemma contained_stream_technical: "contained (stream_technical E stream)"
  unfolding stream_technical_def
  by (intro contained_try_bind contained_py_get contained_py_int contained_Inr)

lemma contained_extract_technical_metadata:
  "contained (extract_technical_metadata E ffprobe_data)"
  unfolding extract_technical_metadata_def
  by (auto intro!: contained_try_bind contained_format_technical contained_py_iter
        contained_audio_streams_of contained_stream_technical split: list.splits)

lemma contained_summary_file_part: "contained (summary_file_part E file_info)"
  unfolding summary_file_part_def
  by (auto intro!: contained_try_bind contained_truthy contained_py_get)

lemma contained_summary_tech_part: "contained (summary_tech_part E tech)"
  unfolding summary_tech_part_def
  by (auto intro!: contained_try_bind contained_truthy contained_py_get split: option.splits)

lemma contained_create_metadata_summary: "contained (create_metadata_summary E metadata)"
  unfolding create_metadata_summary_def
  by (intro contained_try_bind contained_summary_file_part contained_summary_tech_part
        contained_Inr)

lemma contained_get_audio_path_keys: "contained (get_audio_path_keys E d keys)"
proof (induction keys)
  case Nil
  show ?case by simp
next
  case (Cons key keys)
  have t: "contained (truthy (dict_get d key PNone))" by (rule contained_truthy)
  have e: "contained (py_exists E (dict_get d key PNone))"
    unfolding py_exists_def by (rule contained_stat_test)
  show ?case
    using Cons t e
    by (auto simp add: Let_def split: sum.splits bool.splits pyval.splits)
qed

lemma contained_get_audio_path: "contained (get_audio_path E audio_input)"
  by (cases audio_input)
     (simp_all add: get_audio_path_def contained_get_audio_path_keys
        del: get_audio_path_keys.simps)

lemma contained_extract_all_metadata:
  "contained (extract_all_metadata E path extract_format extract_technical extract_tags)"
  unfolding extract_all_metadata_def
  by (auto intro!: contained_try_bind contained_os_path_getsize
        contained_extract_technical_metadata simp add: Let_def
        split: pyval.splits option.splits)

lemma contained_metadata_from_file:
  "contained (metadata_from_file E audio extract_format extract_technical extract_tags)"
  unfolding metadata_from_file_def py_exists_def
  by (auto intro!: contained_try_bind contained_get_audio_path contained_truthy
        contained_stat_test contained_extract_all_metadata contained_create_metadata_summary
        contained_py_get contained_json_dumps contained_py_float)

lemma contained_metadata_try:
  "contained (metadata_try E audio extract_format extract_technical extract_tags)"
  unfolding metadata_try_def
  by (auto intro!: contained_try_bind contained_create_metadata_summary contained_json_dumps
        contained_metadata_from_file simp add: Let_def split: pyval.splits)

lemma extract_audio_metadata_returns:
  "\<exists>r. extract_audio_metadata E audio extract_format extract_technical extract_tags = Inr r"
  unfolding extract_audio_metadata_def
  by (rule except_Exception_returns) (rule contained_metadata_try)

subsection \<open>The batch node\<close>

lemma contained_process_single_file: "contained (process_single_file E audio_file operation)"
proof -
  obtain dr where dr: "calculate_audio_duration E (PDict [(''file_path'', PStr audio_file)])
                         ''auto'' 3 True (- 60) = Inr dr"
    using calculate_audio_duration_returns by blast
  obtain mr where mr: "extract_audio_metadata E (PDict [(''file_path'', PStr audio_file)])
                         True True False = Inr mr"
    using extract_audio_metadata_returns by blast
  show ?thesis
    unfolding process_single_file_def dr mr
    by (auto intro!: contained_try_bind contained_os_path_getsize simp add: Let_def
          simp del: calculate_audio_duration.simps)
qed

lemma file_record_returns: "\<exists>r. file_record E operation audio_file = Inr r"
  unfolding file_record_def
  by (rule except_Exception_returns) (rule contained_process_single_file)

lemma process_files_returns:
  "\<exists>results. process_files E operation audio_files = Inr results"
proof (induction audio_files)
  case Nil
  show ?case by simp
next
  case (Cons f fs)
  obtain r where r: "file_record E operation f = Inr r"
    using file_record_returns by blast
  from Cons obtain rs where rs: "process_files E operation fs = Inr rs" by blast
  show ?case by (simp add: r rs)
qed

lemma contained_sum_durations: "contained (sum_durations results)"
  by (induction results) (auto intro!: contained_try_bind split: option.splits)

lemma contained_create_batch_summary: "contained (create_batch_summary results operation)"
  unfolding create_batch_summary_def
  by (auto intro!: contained_try_bind contained_sum_durations simp add: Let_def)

lemma contained_find_audio_files: "contained (find_audio_files E directory pattern recursive)"
  by (simp add: find_audio_files_def split: pyval.splits)

lemma contained_batch_try:
  "contained (batch_try E directory_path file_pattern operation recursive)"
proof -
  have p: "\<And>audio_files. contained (process_files E operation audio_files)"
    subgoal for audio_files
      using process_files_returns[of E operation audio_files] by auto
    done
  show ?thesis
    unfolding batch_try_def py_isdir_def
    by (auto intro!: contained_try_bind contained_truthy contained_stat_test
          contained_find_audio_files p contained_create_batch_summary contained_json_dumps)
qed

lemma process_audio_batch_returns:
  "\<exists>r. process_audio_batch E directory_path file_pattern operation recursive = Inr r"
  unfolding process_audio_batch_def
  by (rule except_Exception_returns) (rule contained_batch_try)

section \<open>Properties of the duration node\<close>

subsection \<open>Paths that are strings\<close>

lemma py_exists_str [simp]: "py_exists E (PStr p) = Inr (os_path_exists E p)"
  by (simp add: py_exists_def stat_test_def os_stat_def os_path_exists_def split: option.splits)

lemma py_isfile_str [simp]: "py_isfile E (PStr p) = Inr (os_path_isfile E p)"
  by (simp add: py_isfile_def stat_test_def os_stat_def os_path_isfile_def
        split: option.splits fs_entry.splits)

lemma py_isdir_str [simp]: "py_isdir E (PStr p) = Inr (os_path_isdir E p)"
  by (simp add: py_isdir_def stat_test_def os_stat_def os_path_isdir_def
        split: option.splits fs_entry.splits)

lemma py_getsize_str [simp]: "py_getsize E (PStr p) = os_path_getsize E p"
  by (simp add: py_getsize_def os_stat_def os_path_getsize_def
        split: option.splits fs_entry.splits)

lemma format_path_str [simp]: "format_path E (PStr p) = p"
  by (simp add: format_path_def)

lemma calculate_from_file_str:
  "calculate_from_file E (PStr p) calculation_mode time_precision include_silence thr =
     (if p = [] then Inr (error_response msg_no_path)
      else if \<not> os_path_exists E p then Inr (error_response (msg_not_found @ p))
      else if \<not> os_path_isfile E p then Inr (error_response (msg_not_file @ p))
      else
        (case os_path_getsize E p of
           Inl e \<Rightarrow> Inl e
         | Inr file_size \<Rightarrow>
             if file_size = 0 then Inr (error_response msg_empty_file)
             else
               (case run_backend E
                       (choose_backend E
                          (if calculation_mode = ''auto'' then select_calculation_mode E p
                           else calculation_mode)) p of
                  BackendError err \<Rightarrow> Inr (error_response err)
                | BackendSuccess duration metadata \<Rightarrow>
                    file_success E p file_size
                      (if calculation_mode = ''auto'' then select_calculation_mode E p
                       else calculation_mode)
                      time_precision include_silence thr duration metadata)))"
  by (cases "os_path_getsize E p") (simp_all add: calculate_from_file_def Let_def)

subsection \<open>The shape of a result\<close>

lemma tensor_fallback_after_raise:
  "tensor_try sh sample_rate = Inl e \<Longrightarrow> tensor_fallback sh sample_rate = None"
  by (auto simp add: tensor_try_def tensor_fallback_def num_samples_of_def shape_last_def Let_def
        split: if_splits option.splits sum.splits)

lemma calculate_duration_from_tensor_nonneg:
  "calculate_duration_from_tensor waveform sample_rate = Inr d \<Longrightarrow> 0 \<le> d"
proof (cases waveform)
  case (PTensor sh es)
  assume r: "calculate_duration_from_tensor waveform sample_rate = Inr d"
  show ?thesis
  proof (cases "tensor_try sh sample_rate")
    case (Inl e)
    then show ?thesis
      using r PTensor tensor_fallback_after_raise[OF Inl]
      by (simp add: calculate_duration_from_tensor_def except_Exception_def split: if_splits)
  next
    case (Inr x)
    then have "x = d" using r PTensor by (simp add: calculate_duration_from_tensor_def)
    then show ?thesis
      using Inr by (auto simp add: tensor_try_def split: sum.splits if_splits option.splits)
  qed
qed (simp_all add: calculate_duration_from_tensor_def)

lemma py_round_nonneg: "0 \<le> x \<Longrightarrow> 0 \<le> py_round x p"
  by (simp add: py_round_def round_half_even_nonneg)

lemma tensor_success_shape:
  "tensor_success waveform duration time_precision metadata = Inr r \<Longrightarrow>
     r = (py_round duration time_precision, format_duration (py_round duration time_precision),
          ''success'', PDict metadata)"
  by (auto simp add: tensor_success_def json_dumps_def Let_def split: if_splits)

lemma file_success_shape:
  "file_success E p file_size calc_mode time_precision include_silence thr duration metadata = Inr r
   \<Longrightarrow> \<exists>j. r = (py_round duration time_precision,
                 format_duration (py_round duration time_precision), ''success'', j)"
  by (auto simp add: file_success_def json_dumps_def remove_silence_duration_def Let_def
        split: if_splits)

text \<open>
  A result of the node is well formed when it is an error tuple or carries the status
  \<^verbatim>\<open>success\<close> with a non-negative duration and its formatting.
\<close>

lemma try_bind_InrE:
  assumes "try_bind m f = Inr r"
  obtains x where "m = Inr x" and "f x = Inr r"
  using assms by (cases m) simp_all

lemma error_response_ex [simp]: "\<exists>msg. error_response m = error_response msg"
  by blast

lemma calculate_from_file_shape:
  assumes "\<And>b p d m. run_backend E b p = BackendSuccess d m \<Longrightarrow> 0 \<le> d"
      and "calculate_from_file E audio_path calculation_mode time_precision include_silence thr
             = Inr r"
  shows "(\<exists>msg. r = error_response msg) \<or>
         (\<exists>d j. 0 \<le> d \<and> r = (d, format_duration d, ''success'', j))"
proof -
  have ok: "\<And>p n c d m r. run_backend E (choose_backend E c) p = BackendSuccess d m \<Longrightarrow>
              file_success E p n c time_precision include_silence thr d m = Inr r \<Longrightarrow>
              \<exists>d j. 0 \<le> d \<and> r = (d, format_duration d, ''success'', j)"
    using assms(1) file_success_shape py_round_nonneg by blast
  show ?thesis
    using assms(2)
    apply (auto simp add: calculate_from_file_def Let_def elim!: try_bind_InrE
             split: pyval.splits if_splits backend_result.splits)
     apply (drule (1) ok, blast)+
    done
qed

lemma duration_try_shape:
  assumes "\<And>b p d m. run_backend E b p = BackendSuccess d m \<Longrightarrow> 0 \<le> d"
      and "duration_try E audio calculation_mode time_precision include_silence thr = Inr r"
  shows "(\<exists>msg. r = error_response msg) \<or>
         (\<exists>d j. 0 \<le> d \<and> r = (d, format_duration d, ''success'', j))"
proof -
  have t: "\<And>w sr d md r. calculate_duration_from_tensor w sr = Inr d \<Longrightarrow>
             tensor_success w d time_precision md = Inr r \<Longrightarrow>
             \<exists>d j. 0 \<le> d \<and> r = (d, format_duration d, ''success'', j)"
    using calculate_duration_from_tensor_nonneg tensor_success_shape py_round_nonneg by blast
  show ?thesis
    using assms(2) calculate_from_file_shape[OF assms(1)]
    by (auto simp add: duration_try_def Let_def dest: t split: pyval.splits if_splits sum.splits)
qed

lemma duration_except_shape:
  assumes "\<And>b p d m. run_backend E b p = BackendSuccess d m \<Longrightarrow> 0 \<le> d"
  shows "(\<exists>msg. duration_except E (duration_try E audio calculation_mode time_precision
                   include_silence thr) = Inr (error_response msg)) \<or>
         (\<exists>d j. 0 \<le> d \<and>
                 duration_except E (duration_try E audio calculation_mode time_precision
                   include_silence thr) = Inr (d, format_duration d, ''success'', j))"
proof (cases "duration_try E audio calculation_mode time_precision include_silence thr")
  case (Inl e)
  then have "is_Exception e"
    using contained_duration_try[of E audio calculation_mode time_precision include_silence thr]
    by simp
  then have "duration_except E (duration_try E audio calculation_mode time_precision
               include_silence thr) = Inr (error_response (msg_exception @ exn_str E e))"
    using Inl by (simp add: duration_except_def except_Exception_def)
  then show ?thesis by blast
next
  case (Inr r)
  then show ?thesis using duration_try_shape[OF assms Inr] by (simp add: duration_except_def)
qed

lemma duration_result_shape:
  "(\<And>b p d m. run_backend E b p = BackendSuccess d m \<Longrightarrow> 0 \<le> d) \<Longrightarrow>
   (\<exists>msg. calculate_audio_duration E audio calculation_mode time_precision
             include_silence thr = Inr (error_response msg)) \<or>
   (\<exists>d j. 0 \<le> d \<and>
           calculate_audio_duration E audio calculation_mode time_precision
             include_silence thr = Inr (d, format_duration d, ''success'', j))"
  apply (induction E audio calculation_mode time_precision include_silence thr
           rule: calculate_audio_duration.induct)
  apply (auto simp add: duration_except_def)[1]
  apply (simp only: calculate_audio_duration.simps, erule duration_except_shape)+
  done


text \<open>
  Claim C6. For every path string naming a file that does not exist, the duration entry
  point returns exactly \<open>(0.0, "00:00:00.000", "error: <message>", "{}")\<close>, the message
  being "audio file not found at path: " followed by the path; for every existing regular
  file of zero bytes it returns the same tuple with the message "the audio file is empty".
  The empty path string gives the tuple with the message "the path was not received".
\<close>

theorem missing_or_empty_file_error:
  "(p \<noteq> [] \<and> fs E p = None \<longrightarrow>
      calculate_audio_duration E (PStr p) calculation_mode time_precision include_silence thr =
        Inr (0, ''00:00:00.000'', ''error: '' @ msg_not_found @ p, PDict [])) \<and>
   (p \<noteq> [] \<and> fs E p = Some (RegularFile 0) \<longrightarrow>
      calculate_audio_duration E (PStr p) calculation_mode time_precision include_silence thr =
        Inr (0, ''00:00:00.000'', ''error: '' @ msg_empty_file, PDict [])) \<and>
   calculate_audio_duration E (PStr []) calculation_mode time_precision include_silence thr =
        Inr (0, ''00:00:00.000'', ''error: '' @ msg_no_path, PDict [])"
  by (simp add: duration_except_def duration_try_def calculate_from_file_str os_path_exists_def
        os_path_isfile_def os_path_getsize_def error_response_def)

theorem missing_or_empty_file_error_witness:
  "''/in/x.wav'' \<noteq> [] \<and> fs env0 ''/in/x.wav'' = None \<and>
   calculate_audio_duration env0 (PStr ''/in/x.wav'') ''auto'' 3 True (- 60) =
     Inr (0, ''00:00:00.000'', ''error: '' @ msg_not_found @ ''/in/x.wav'', PDict []) \<and>
   ''/in/c.flac'' \<noteq> [] \<and> fs env0 ''/in/c.flac'' = Some (RegularFile 0) \<and>
   calculate_audio_duration env0 (PStr ''/in/c.flac'') ''auto'' 3 True (- 60) =
     Inr (0, ''00:00:00.000'', ''error: '' @ msg_empty_file, PDict [])"
  using missing_or_empty_file_error[of "''/in/x.wav''" env0 "''auto''" 3 True "- 60"]
        missing_or_empty_file_error[of "''/in/c.flac''" env0 "''auto''" 3 True "- 60"]
  by (simp add: env0_def fs0_def)

text \<open>
  A path that is an integer is read as a file descriptor: one that is not open is reported
  as a file that was not found, a standard stream as a path that is not a file.
\<close>

lemma descriptor_path:
  "calculate_audio_duration env0 (PDict [(''file_path'', PInt 987)]) ''auto'' 3 True (- 60) =
     Inr (error_response (msg_not_found @ ''987'')) \<and>
   calculate_audio_duration env0 (PDict [(''file_path'', PInt 2)]) ''auto'' 3 True (- 60) =
     Inr (error_response (msg_not_file @ ''2''))"
proof -
  have n: "int_str 987 = ''987''" "int_str 2 = ''2''"
    by (simp_all add: int_str_def nat_str_ge10 nat_str_lt10 digit_char_def)
  show ?thesis
    by (simp add: duration_except_def duration_try_def dict_has_def dict_get_def
          calculate_from_file_def py_exists_def py_isfile_def stat_test_def os_stat_def
          os_fstat_def format_path_def n env0_def)
qed

text \<open>
  Claim C5. For a path input with the calculation mode \<^verbatim>\<open>auto\<close>: the mode \<^verbatim>\<open>fast\<close> is
  selected, and \<^verbatim>\<open>_calculate_with_pydub\<close> is the backend called, when the lower-cased
  extension is one of \<^verbatim>\<open>.mp3\<close>, \<^verbatim>\<open>.aac\<close>, \<^verbatim>\<open>.m4a\<close> and pydub is available; in every other
  case the mode is \<^verbatim>\<open>accurate\<close>, and the backend called is \<^verbatim>\<open>_calculate_with_librosa\<close>
  when librosa is available and \<^verbatim>\<open>_calculate_with_ffmpeg\<close> (the external probe) when it
  is not. In particular the probe is called when neither library is present. For an
  existing regular file that is not empty the entry point returns what the backend so
  called reports: its error as an error tuple, its duration, rounded, as a success whose
  metadata are those of the backend extended by six entries (an error tuple again when
  these cannot be serialised).
\<close>

theorem auto_backend_selection:
  assumes "p \<noteq> []" and "fs E p = Some (RegularFile n)" and "0 < n"
  shows
    "select_calculation_mode E p =
       (if lower (snd (os_path_splitext p)) \<in> set [''.mp3'', ''.aac'', ''.m4a''] \<and>
           PYDUB_AVAILABLE E
        then ''fast'' else ''accurate'') \<and>
     calculate_audio_duration E (PStr p) ''auto'' time_precision include_silence thr =
       (case (if lower (snd (os_path_splitext p)) \<in> set [''.mp3'', ''.aac'', ''.m4a''] \<and>
                 PYDUB_AVAILABLE E
              then calculate_with_pydub E p
              else if LIBROSA_AVAILABLE E then calculate_with_librosa E p
              else calculate_with_ffmpeg E p) of
          BackendError err \<Rightarrow> Inr (0, ''00:00:00.000'', ''error: '' @ err, PDict [])
        | BackendSuccess duration metadata \<Rightarrow>
            (let extended = dict_update metadata
                   [(''calculation_mode'', PStr (select_calculation_mode E p)),
                    (''time_precision'', PInt (int time_precision)),
                    (''include_silence'', PBool include_silence),
                    (''silence_threshold_db'', PFloat thr),
                    (''file_path'', PStr p),
                    (''file_size_bytes'', PInt (int n))]
             in if json_serializable (PDict extended)
                then Inr (py_round duration time_precision,
                          format_duration (py_round duration time_precision),
                          ''success'', PDict extended)
                else Inr (0, ''00:00:00.000'',
                          ''error: '' @ msg_exception @ exn_str E TypeError, PDict [])))"
proof -
  let ?fast = "lower (snd (os_path_splitext p)) \<in> set [''.mp3'', ''.aac'', ''.m4a''] \<and>
               PYDUB_AVAILABLE E"
  have m: "select_calculation_mode E p = (if ?fast then ''fast'' else ''accurate'')"
    by (simp add: select_calculation_mode_def Let_def)
  have b: "run_backend E (choose_backend E (select_calculation_mode E p)) p =
             (if ?fast then calculate_with_pydub E p
              else if LIBROSA_AVAILABLE E then calculate_with_librosa E p
              else calculate_with_ffmpeg E p)"
    unfolding m by (simp add: choose_backend_def run_backend_def)
  have c: "calculate_from_file E (PStr p) ''auto'' time_precision include_silence thr =
       (case run_backend E (choose_backend E (select_calculation_mode E p)) p of
          BackendError err \<Rightarrow> Inr (error_response err)
        | BackendSuccess duration metadata \<Rightarrow>
            file_success E p n (select_calculation_mode E p) time_precision include_silence
              thr duration metadata)"
    using assms
    by (simp add: calculate_from_file_str os_path_exists_def os_path_isfile_def
          os_path_getsize_def)
  have "calculate_audio_duration E (PStr p) ''auto'' time_precision include_silence thr =
       (case (if ?fast then calculate_with_pydub E p
              else if LIBROSA_AVAILABLE E then calculate_with_librosa E p
              else calculate_with_ffmpeg E p) of
          BackendError err \<Rightarrow> Inr (0, ''00:00:00.000'', ''error: '' @ err, PDict [])
        | BackendSuccess duration metadata \<Rightarrow>
            (let extended = dict_update metadata
                   [(''calculation_mode'', PStr (select_calculation_mode E p)),
                    (''time_precision'', PInt (int time_precision)),
                    (''include_silence'', PBool include_silence),
                    (''silence_threshold_db'', PFloat thr),
                    (''file_path'', PStr p),
                    (''file_size_bytes'', PInt (int n))]
             in if json_serializable (PDict extended)
                then Inr (py_round duration time_precision,
                          format_duration (py_round duration time_precision),
                          ''success'', PDict extended)
                else Inr (0, ''00:00:00.000'',
                          ''error: '' @ msg_exception @ exn_str E TypeError, PDict [])))"
    unfolding b[symmetric]
    by (simp add: duration_try_def c duration_except_def except_Exception_def
          file_success_def json_dumps_def remove_silence_duration_def error_response_def Let_def
          split: backend_result.splits)
  with m show ?thesis by blast
qed

lemma ext_a_mp3: "lower (snd (os_path_splitext ''/in/a.mp3'')) = ''.mp3''"
  by (simp add: lower_def lower_char_def os_path_splitext_def rfind_def Let_def)

lemma ext_b_wav: "lower (snd (os_path_splitext ''/in/b.wav'')) = ''.wav''"
  by (simp add: lower_def lower_char_def os_path_splitext_def rfind_def Let_def)

lemma round_5_2: "py_round (5 / 2) 3 = 5 / 2"
  by (simp add: py_round_def round_half_even_def Let_def)

lemma round_3: "py_round 3 3 = 3"
  by (simp add: py_round_def round_half_even_def Let_def)

lemma format_5_2: "format_duration (5 / 2) = ''00:02.500''"
  by code_simp

lemma format_3: "format_duration 3 = ''00:03.000''"
  by code_simp

theorem auto_backend_selection_witness:
  "''/in/a.mp3'' \<noteq> [] \<and> fs env0 ''/in/a.mp3'' = Some (RegularFile 1000) \<and> (0::nat) < 1000 \<and>
   select_calculation_mode env0 ''/in/a.mp3'' = ''fast'' \<and>
   calculate_audio_duration env0 (PStr ''/in/a.mp3'') ''auto'' 3 True (- 60) =
     Inr (5 / 2, ''00:02.500'', ''success'',
          PDict [(''method'', PStr ''pydub''), (''calculation_mode'', PStr ''fast''),
                 (''time_precision'', PInt 3), (''include_silence'', PBool True),
                 (''silence_threshold_db'', PFloat (- 60)), (''file_path'', PStr ''/in/a.mp3''),
                 (''file_size_bytes'', PInt 1000)]) \<and>
   ''/in/b.wav'' \<noteq> [] \<and> fs env0 ''/in/b.wav'' = Some (RegularFile 2000) \<and> (0::nat) < 2000 \<and>
   select_calculation_mode env0 ''/in/b.wav'' = ''accurate'' \<and>
   calculate_audio_duration env0 (PStr ''/in/b.wav'') ''auto'' 3 True (- 60) =
     Inr (0, ''00:00:00.000'', ''error: FFprobe timeout'', PDict []) \<and>
   fs (env0\<lparr>LIBROSA_AVAILABLE := True\<rparr>) ''/in/b.wav'' = Some (RegularFile 2000) \<and>
   select_calculation_mode (env0\<lparr>LIBROSA_AVAILABLE := True\<rparr>) ''/in/b.wav'' = ''accurate'' \<and>
   calculate_audio_duration (env0\<lparr>LIBROSA_AVAILABLE := True\<rparr>) (PStr ''/in/b.wav'') ''auto'' 3
       True (- 60) =
     Inr (3, ''00:03.000'', ''success'',
          PDict [(''method'', PStr ''librosa''), (''calculation_mode'', PStr ''accurate''),
                 (''time_precision'', PInt 3), (''include_silence'', PBool True),
                 (''silence_threshold_db'', PFloat (- 60)), (''file_path'', PStr ''/in/b.wav''),
                 (''file_size_bytes'', PInt 2000)]) \<and>
   fs (env0\<lparr>PYDUB_AVAILABLE := False\<rparr>) ''/in/a.mp3'' = Some (RegularFile 1000) \<and>
   select_calculation_mode (env0\<lparr>PYDUB_AVAILABLE := False\<rparr>) ''/in/a.mp3'' = ''accurate'' \<and>
   calculate_audio_duration (env0\<lparr>PYDUB_AVAILABLE := False\<rparr>) (PStr ''/in/a.mp3'') ''auto'' 3
       True (- 60) =
     Inr (0, ''00:00:00.000'', ''error: FFprobe timeout'', PDict [])"
proof -
  have a: "''/in/a.mp3'' \<noteq> []" "fs env0 ''/in/a.mp3'' = Some (RegularFile 1000)" "(0::nat) < 1000"
    by (simp_all add: env0_def fs0_def)
  have b: "''/in/b.wav'' \<noteq> []" "fs env0 ''/in/b.wav'' = Some (RegularFile 2000)" "(0::nat) < 2000"
    by (simp_all add: env0_def fs0_def)
  have c: "fs (env0\<lparr>LIBROSA_AVAILABLE := True\<rparr>) ''/in/b.wav'' = Some (RegularFile 2000)"
    by (simp add: env0_def fs0_def)
  have d: "fs (env0\<lparr>PYDUB_AVAILABLE := False\<rparr>) ''/in/a.mp3'' = Some (RegularFile 1000)"
    by (simp add: env0_def fs0_def)
  have e: "PYDUB_AVAILABLE env0" "\<not> LIBROSA_AVAILABLE env0"
    "calculate_with_pydub env0 = (\<lambda>p. BackendSuccess (5 / 2) [(''method'', PStr ''pydub'')])"
    "calculate_with_librosa env0 = (\<lambda>p. BackendSuccess 3 [(''method'', PStr ''librosa'')])"
    "calculate_with_ffmpeg env0 = (\<lambda>p. BackendError ''FFprobe timeout'')"
    by (simp_all add: env0_def)
  show ?thesis
    using a b c d
      auto_backend_selection[OF a, of 3 True "- 60"]
      auto_backend_selection[OF b, of 3 True "- 60"]
      auto_backend_selection[OF b(1) c b(3), of 3 True "- 60"]
      auto_backend_selection[OF a(1) d a(3), of 3 True "- 60"]
    by (simp add: ext_a_mp3 ext_b_wav e round_5_2 round_3 format_5_2 format_3
          dict_update_def dict_set_def)
qed

text \<open>
  Claim C3, as stated, fails: the duration is zero together with the status \<^verbatim>\<open>success\<close>
  for an empty buffer (the branch of \<^verbatim>\<open>_calculate_duration_from_tensor\<close> that returns
  \<open>0.0\<close> for no samples or a non-positive sample rate), and for a buffer so short that
  its duration rounds to zero at the requested precision.
\<close>

theorem zero_duration_with_success_counterexample:
  "calculate_audio_duration env0
     (PDict [(''waveform'', PTensor [1, 2, 0] 4), (''sample_rate'', PInt 44100)])
     ''auto'' 3 True (- 60) =
     Inr (0, ''00:00:00.000'', ''success'',
          PDict [(''calculation_method'', PStr ''tensor_direct''),
                 (''sample_rate'', PInt 44100),
                 (''waveform_shape'', PList [PInt 1, PInt 2, PInt 0]),
                 (''time_precision'', PInt 3),
                 (''include_silence'', PBool True),
                 (''silence_threshold_db'', PFloat (- 60)),
                 (''total_samples'', PInt 0)]) \<and>
   calculate_audio_duration env0
     (PDict [(''waveform'', PTensor [1, 1, 10] 4), (''sample_rate'', PInt 24000)])
     ''auto'' 3 True (- 60) =
     Inr (0, ''00:00:00.000'', ''success'',
          PDict [(''calculation_method'', PStr ''tensor_direct''),
                 (''sample_rate'', PInt 24000),
                 (''waveform_shape'', PList [PInt 1, PInt 1, PInt 10]),
                 (''time_precision'', PInt 3),
                 (''include_silence'', PBool True),
                 (''silence_threshold_db'', PFloat (- 60)),
                 (''total_samples'', PInt 10)])"
proof -
  have f: "\<lfloor>5 / 12 :: rat\<rfloor> = 0"
    by (simp add: floor_eq_iff)
  show ?thesis
    by (simp add: duration_except_def duration_try_def dict_has_def dict_get_def
          calculate_duration_from_tensor_def tensor_try_def num_samples_of_def tensor_success_def
          py_round_def round_half_even_def json_dumps_def waveform_shape_def
          get_total_samples_def format_duration_def Let_def f)
qed

text \<open>
  Claim C3, amended. Provided the audio libraries and the probe report non-negative
  durations, for every input of the duration node the entry point returns a tuple whose
  duration is non-negative and whose status is either \<^verbatim>\<open>success\<close> or starts with
  \<^verbatim>\<open>error: \<close>, and an error status always comes with the duration \<open>0.0\<close>, the text
  \<open>"00:00:00.000"\<close> and the metadata \<open>"{}"\<close>. (A zero duration can also come with the status
  \<^verbatim>\<open>success\<close>.)
\<close>

theorem duration_nonneg_error_zero:
  assumes "\<And>b p d m. run_backend E b p = BackendSuccess d m \<Longrightarrow> 0 \<le> d"
  shows "\<exists>r. calculate_audio_duration E audio calculation_mode time_precision
                include_silence silence_threshold_db = Inr r \<and>
             (let status = fst (snd (snd r))
              in 0 \<le> fst r \<and>
                 (status = ''success'' \<or> take 7 status = ''error: '') \<and>
                 (take 7 status = ''error: '' \<longrightarrow>
                    r = (0, ''00:00:00.000'', status, PDict [])))"
proof -
  have "(\<exists>msg. calculate_audio_duration E audio calculation_mode time_precision
                 include_silence silence_threshold_db = Inr (error_response msg)) \<or>
        (\<exists>d j. 0 \<le> d \<and>
               calculate_audio_duration E audio calculation_mode time_precision
                 include_silence silence_threshold_db =
               Inr (d, format_duration d, ''success'', j))"
    by (rule duration_result_shape) (erule assms)
  then show ?thesis
    by (auto simp add: Let_def error_response_def)
qed

theorem duration_nonneg_error_zero_witness:
  "(\<exists>r. calculate_audio_duration env0 (PStr ''/in/b.wav'') ''auto'' 3 True (- 60) = Inr r \<and>
        0 \<le> fst r \<and> take 7 (fst (snd (snd r))) = ''error: '' \<and>
        r = (0, ''00:00:00.000'', ''error: FFprobe timeout'', PDict [])) \<and>
   (\<exists>r. calculate_audio_duration env0 (PStr ''/in/a.mp3'') ''auto'' 3 True (- 60) = Inr r \<and>
        0 \<le> fst r \<and> fst (snd (snd r)) = ''success'' \<and>
        r = (5 / 2, ''00:02.500'', ''success'',
             PDict [(''method'', PStr ''pydub''), (''calculation_mode'', PStr ''fast''),
                    (''time_precision'', PInt 3), (''include_silence'', PBool True),
                    (''silence_threshold_db'', PFloat (- 60)),
                    (''file_path'', PStr ''/in/a.mp3''), (''file_size_bytes'', PInt 1000)]))"
proof -
  have h: "\<And>b p d m. run_backend env0 b p = BackendSuccess d m \<Longrightarrow> 0 \<le> d"
    by (auto simp add: run_backend_def env0_def split: backend.splits)
  have e: "calculate_audio_duration env0 (PStr ''/in/b.wav'') ''auto'' 3 True (- 60) =
             Inr (0, ''00:00:00.000'', ''error: FFprobe timeout'', PDict [])"
    by (simp add: duration_except_def duration_try_def calculate_from_file_str
          os_path_exists_def os_path_isfile_def os_path_getsize_def error_response_def
          select_calculation_mode_def ext_b_wav choose_backend_def run_backend_def
          env0_def fs0_def)
  have s: "calculate_audio_duration env0 (PStr ''/in/a.mp3'') ''auto'' 3 True (- 60) =
     Inr (5 / 2, ''00:02.500'', ''success'',
          PDict [(''method'', PStr ''pydub''), (''calculation_mode'', PStr ''fast''),
                 (''time_precision'', PInt 3), (''include_silence'', PBool True),
                 (''silence_threshold_db'', PFloat (- 60)), (''file_path'', PStr ''/in/a.mp3''),
                 (''file_size_bytes'', PInt 1000)])"
    by (simp add: duration_except_def duration_try_def calculate_from_file_str
          os_path_exists_def os_path_isfile_def os_path_getsize_def
          select_calculation_mode_def ext_a_mp3 choose_backend_def run_backend_def
          file_success_def json_dumps_def dict_update_def dict_set_def round_5_2 format_5_2
          env0_def fs0_def)
  have t1: "\<exists>r. calculate_audio_duration env0 (PStr ''/in/b.wav'') ''auto'' 3 True (- 60) = Inr r \<and>
             (let status = fst (snd (snd r))
              in 0 \<le> fst r \<and>
                 (status = ''success'' \<or> take 7 status = ''error: '') \<and>
                 (take 7 status = ''error: '' \<longrightarrow>
                    r = (0, ''00:00:00.000'', status, PDict [])))"
    by (rule duration_nonneg_error_zero) (erule h)
  have t2: "\<exists>r. calculate_audio_duration env0 (PStr ''/in/a.mp3'') ''auto'' 3 True (- 60) = Inr r \<and>
             (let status = fst (snd (snd r))
              in 0 \<le> fst r \<and>
                 (status = ''success'' \<or> take 7 status = ''error: '') \<and>
                 (take 7 status = ''error: '' \<longrightarrow>
                    r = (0, ''00:00:00.000'', status, PDict [])))"
    by (rule duration_nonneg_error_zero) (erule h)
  show ?thesis
    using e s t1 t2 by simp
qed

section \<open>Properties of the metadata node\<close>

subsection \<open>In-memory buffers\<close>

text \<open>
  Claim C4. The claim is that the metadata node infers the channel count of a buffer by the
  rank heuristic of the duration node, which reads a buffer of rank 2 whose first dimension
  is at most 2 as \<^verbatim>\<open>[channels, samples]\<close>. The code does not: the channel count is taken from
  the second dimension, \<^verbatim>\<open>waveform.shape[1] if waveform.dim() >= 2 and waveform.shape[1] <= 2
  else 1\<close>. For a channel-first stereo buffer of shape \<open>(2, 48000)\<close> at 48000 Hz the
  technical record gives one channel, while the same record takes the second dimension as
  the sample count (48000 samples, one second), as the duration node does.
\<close>

theorem channel_first_stereo_one_channel:
  "extract_audio_metadata env0
     (PDict [(''waveform'', PTensor [2, 48000] 4), (''sample_rate'', PInt 48000)])
     True True False =
     Inr (PDict [(''format'', PDict [(''format_name'', PStr ''tensor''),
                                    (''sample_rate'', PInt 48000)]),
                 (''technical'', PDict [(''duration_seconds'', PFloat 1),
                                       (''sample_rate'', PInt 48000),
                                       (''channels'', PInt 1),
                                       (''total_samples'', PInt 48000)]),
                 (''file_info'', PDict [(''name'', PStr ''audio_tensor''),
                                       (''size_bytes'', PInt 384000)])],
          ''audio_tensor (0 MB) | Duration: 0:01.0 | 48000 Hz | 1ch'',
          PStr ''tensor'', 1) \<and>
   calculate_duration_from_tensor (PTensor [2, 48000] 4) (PInt 48000) = Inr 1"
proof -
  have n: "int_str 48000 = ''48000''" "int_str 1 = ''1''" "int_str 0 = ''0''"
    by (simp_all add: int_str_def nat_str_ge10 nat_str_lt10 digit_char_def)
  have d: "summary_duration 1 = ''0:01.0''"
    by code_simp
  have s: "py_str env0 = str0" by (simp add: env0_def)
  show ?thesis
    by (simp add: extract_audio_metadata_def metadata_try_def dict_has_def dict_get_def
          get_duration_from_tensor_def tensor_metadata_def tensor_channels_def
          tensor_total_samples_def create_metadata_summary_def summary_file_part_def
          summary_tech_part_def py_get_def json_dumps_def s str0_def n d Let_def
          calculate_duration_from_tensor_def tensor_try_def num_samples_of_def)
qed

subsection \<open>Files\<close>

lemma os_path_getsize_exists:
  "os_path_exists E p \<Longrightarrow> \<exists>n. os_path_getsize E p = Inr n"
  by (auto simp add: os_path_exists_def os_path_getsize_def split: option.splits fs_entry.splits)

lemma get_audio_path_existing:
  assumes "p \<noteq> []" and "os_path_exists E p"
  shows "get_audio_path E (PStr p) = Inr (PStr p)"
    and "get_audio_path E (PDict [(''file_path'', PStr p)]) = Inr (PStr p)"
  using assms by (simp_all add: get_audio_path_def dict_has_def dict_get_def)

lemma metadata_from_file_toggles_off:
  assumes "get_audio_path E audio = Inr (PStr p)" and "p \<noteq> []" and "os_path_exists E p"
      and "os_path_getsize E p = Inr n" and "mtime_iso E p = Some t"
  shows "metadata_from_file E audio False False False =
           Inr (PDict [(''file_info'', PDict (file_info_of p n t))],
                py_str E (PStr (os_path_basename p)) @ '' ('' @
                  py_str E (PFloat (py_round (of_nat n / (1024 * 1024)) 2)) @ '' MB)'',
                PStr ''unknown'', 0)"
proof -
  have a: "extract_all_metadata E (PStr p) False False False =
             Inr [(''file_info'', PDict (file_info_of p n t))]"
    using assms(4,5) by (simp add: extract_all_metadata_def)
  have s: "create_metadata_summary E [(''file_info'', PDict (file_info_of p n t))] =
             Inr (py_str E (PStr (os_path_basename p)) @ '' ('' @
                  py_str E (PFloat (py_round (of_nat n / (1024 * 1024)) 2)) @ '' MB)'')"
    by (simp add: create_metadata_summary_def dict_get_def summary_file_part_def
          summary_tech_part_def py_get_def file_info_of_def)
  have j: "json_dumps (PDict [(''file_info'', PDict (file_info_of p n t))]) =
             Inr (PDict [(''file_info'', PDict (file_info_of p n t))])"
    by (simp add: json_dumps_def file_info_of_def)
  show ?thesis
    using assms(1,2,3)
    by (simp add: metadata_from_file_def a s j dict_get_def py_get_def py_float_def)
qed

lemma metadata_from_file_bad_time:
  assumes "get_audio_path E audio = Inr (PStr p)" and "p \<noteq> []" and "os_path_exists E p"
      and "mtime_iso E p = None"
  shows "metadata_from_file E audio extract_format extract_technical extract_tags =
           Inl ValueError"
proof -
  obtain n where n: "os_path_getsize E p = Inr n"
    using os_path_getsize_exists[OF assms(3)] by blast
  have "extract_all_metadata E (PStr p) extract_format extract_technical extract_tags =
          Inl ValueError"
    using assms(4) n by (simp add: extract_all_metadata_def)
  then show ?thesis
    using assms(1,2,3) by (simp add: metadata_from_file_def)
qed

text \<open>
  Claim C9, as stated, fails: for an existing file whose modification time is outside the
  range that \<^verbatim>\<open>datetime.fromtimestamp\<close> accepts, the conversion raises while the record
  \<^verbatim>\<open>file_info\<close> is built, the handler of the entry point takes over, and the node returns
  the record \<^verbatim>\<open>{}\<close>, with no section at all.
\<close>

theorem time_stamp_out_of_range_counterexample:
  "os_path_exists env0 ''/out/old.wav'' \<and>
   extract_audio_metadata env0 (PStr ''/out/old.wav'') False False False =
     Inr (PDict [], ''Error: exception'', PStr ''error'', 0) \<and>
   top_level_keys (PDict []) = []"
proof -
  have e: "os_path_exists env0 ''/out/old.wav''"
    by (simp add: os_path_exists_def env0_def fs0_def)
  have m: "mtime_iso env0 ''/out/old.wav'' = None"
    by (simp add: env0_def)
  have "metadata_from_file env0 (PStr ''/out/old.wav'') False False False = Inl ValueError"
    by (rule metadata_from_file_bad_time[OF get_audio_path_existing(1)[OF _ e] _ e m]) simp_all
  then show ?thesis
    using e by (simp add: extract_audio_metadata_def metadata_try_def except_Exception_def
                  top_level_keys_def env0_def)
qed

text \<open>
  Claim C9, amended. For an existing file path whose modification time can be converted,
  given to the metadata node as a string or under the key \<^verbatim>\<open>file_path\<close> of a dictionary,
  with the three toggles (format, technical, tags) disabled, the returned record has
  exactly one top-level section, \<^verbatim>\<open>file_info\<close>: no \<^verbatim>\<open>format\<close>, \<^verbatim>\<open>technical\<close> or \<^verbatim>\<open>tags\<close>
  section. When the modification time cannot be converted, the node returns the record
  \<^verbatim>\<open>{}\<close> with the text of the exception as its summary, whatever the toggles.
\<close>

theorem toggles_off_only_file_info:
  assumes "p \<noteq> []" and "os_path_exists E p"
  shows "(mtime_iso E p \<noteq> None \<longrightarrow>
            (\<exists>r. extract_audio_metadata E (PStr p) False False False = Inr r \<and>
                 top_level_keys (fst r) = [''file_info'']) \<and>
            (\<exists>r. extract_audio_metadata E (PDict [(''file_path'', PStr p)]) False False False
                   = Inr r \<and>
                 top_level_keys (fst r) = [''file_info''])) \<and>
         (mtime_iso E p = None \<longrightarrow>
            extract_audio_metadata E (PStr p) extract_format extract_technical extract_tags =
              Inr (PDict [], ''Error: '' @ exn_str E ValueError, PStr ''error'', 0) \<and>
            extract_audio_metadata E (PDict [(''file_path'', PStr p)]) extract_format
                extract_technical extract_tags =
              Inr (PDict [], ''Error: '' @ exn_str E ValueError, PStr ''error'', 0))"
proof -
  obtain n where n: "os_path_getsize E p = Inr n"
    using os_path_getsize_exists[OF assms(2)] by blast
  note g = get_audio_path_existing[OF assms]
  have ok: "(\<exists>r. extract_audio_metadata E (PStr p) False False False = Inr r \<and>
                 top_level_keys (fst r) = [''file_info'']) \<and>
            (\<exists>r. extract_audio_metadata E (PDict [(''file_path'', PStr p)]) False False False
                   = Inr r \<and>
                 top_level_keys (fst r) = [''file_info''])"
    if t: "mtime_iso E p = Some t" for t
    using metadata_from_file_toggles_off[OF g(1) assms n t]
          metadata_from_file_toggles_off[OF g(2) assms n t]
    by (simp add: extract_audio_metadata_def metadata_try_def dict_has_def top_level_keys_def)
  have bad: "extract_audio_metadata E (PStr p) extract_format extract_technical extract_tags =
              Inr (PDict [], ''Error: '' @ exn_str E ValueError, PStr ''error'', 0) \<and>
            extract_audio_metadata E (PDict [(''file_path'', PStr p)]) extract_format
                extract_technical extract_tags =
              Inr (PDict [], ''Error: '' @ exn_str E ValueError, PStr ''error'', 0)"
    if t: "mtime_iso E p = None"
    using metadata_from_file_bad_time[OF g(1) assms t]
          metadata_from_file_bad_time[OF g(2) assms t]
    by (simp add: extract_audio_metadata_def metadata_try_def dict_has_def
          except_Exception_def)
  show ?thesis
    using ok bad by blast
qed

theorem toggles_off_only_file_info_witness:
  "''/in/a.mp3'' \<noteq> [] \<and> os_path_exists env0 ''/in/a.mp3'' \<and>
   mtime_iso env0 ''/in/a.mp3'' = Some ''2024-01-01T00:00:00'' \<and>
   extract_audio_metadata env0 (PStr ''/in/a.mp3'') False False False =
     Inr (PDict [(''file_info'',
                  PDict [(''path'', PStr ''/in/a.mp3''), (''name'', PStr ''a.mp3''),
                         (''size_bytes'', PInt 1000), (''size_mb'', PFloat 0),
                         (''modified'', PStr ''2024-01-01T00:00:00'')])],
          ''a.mp3 (<value> MB)'', PStr ''unknown'', 0) \<and>
   (\<exists>r. extract_audio_metadata env0 (PDict [(''file_path'', PStr ''/in/a.mp3'')])
          False False False = Inr r \<and>
        top_level_keys (fst r) = [''file_info'']) \<and>
   ''/out/old.wav'' \<noteq> [] \<and> os_path_exists env0 ''/out/old.wav'' \<and>
   mtime_iso env0 ''/out/old.wav'' = None \<and>
   extract_audio_metadata env0 (PDict [(''file_path'', PStr ''/out/old.wav'')]) True True False =
     Inr (PDict [], ''Error: exception'', PStr ''error'', 0)"
proof -
  have h: "''/in/a.mp3'' \<noteq> []" "os_path_exists env0 ''/in/a.mp3''"
    by (simp_all add: os_path_exists_def env0_def fs0_def)
  have k: "''/out/old.wav'' \<noteq> []" "os_path_exists env0 ''/out/old.wav''"
    by (simp_all add: os_path_exists_def env0_def fs0_def)
  have u: "mtime_iso env0 ''/out/old.wav'' = None" "exn_str env0 ValueError = ''exception''"
    by (simp_all add: env0_def)
  have t: "mtime_iso env0 ''/in/a.mp3'' = Some ''2024-01-01T00:00:00''"
    by (simp add: env0_def)
  have n: "os_path_getsize env0 ''/in/a.mp3'' = Inr 1000"
    by (simp add: os_path_getsize_def env0_def fs0_def)
  have f: "\<lfloor>3125 / 32768 :: rat\<rfloor> = 0"
    by (simp add: floor_eq_iff)
  have r: "py_round (125 / 131072) 2 = 0"
    by (simp add: py_round_def round_half_even_def Let_def f)
  have b: "os_path_basename ''/in/a.mp3'' = ''a.mp3''"
    by (simp add: os_path_basename_def rfind_def)
  have e: "extract_audio_metadata env0 (PStr ''/in/a.mp3'') False False False =
     Inr (PDict [(''file_info'',
                  PDict [(''path'', PStr ''/in/a.mp3''), (''name'', PStr ''a.mp3''),
                         (''size_bytes'', PInt 1000), (''size_mb'', PFloat 0),
                         (''modified'', PStr ''2024-01-01T00:00:00'')])],
          ''a.mp3 (<value> MB)'', PStr ''unknown'', 0)"
    using metadata_from_file_toggles_off[OF get_audio_path_existing(1)[OF h] h n t]
    by (simp add: extract_audio_metadata_def metadata_try_def file_info_of_def r b
          env0_def str0_def)
  show ?thesis
    using h t e k u toggles_off_only_file_info[OF h]
      toggles_off_only_file_info[OF k, of True True False]
    by simp
qed

section \<open>Properties of the batch node\<close>

subsection \<open>The record of one file\<close>

lemma json_dumps_Inr: "json_dumps v = Inr j \<Longrightarrow> j = v \<and> json_serializable v"
  by (simp add: json_dumps_def split: if_splits)

lemma metadata_from_file_serializable:
  assumes "metadata_from_file E audio extract_format extract_technical extract_tags = Inr r"
  shows "json_serializable (fst r)"
  using assms
  by (auto simp add: metadata_from_file_def metadata_not_found_def
        elim!: try_bind_InrE dest!: json_dumps_Inr split: if_splits)

lemma metadata_try_serializable:
  assumes "metadata_try E audio extract_format extract_technical extract_tags = Inr r"
  shows "json_serializable (fst r)"
proof (cases "\<exists>d. audio = PDict d \<and> dict_has d ''waveform''")
  case True
  then obtain d where d: "audio = PDict d" "dict_has d ''waveform''" by blast
  show ?thesis
    using assms d
    by (auto simp add: metadata_try_def Let_def
          elim!: try_bind_InrE dest!: json_dumps_Inr split: pyval.splits)
next
  case False
  then have "metadata_try E audio extract_format extract_technical extract_tags =
               metadata_from_file E audio extract_format extract_technical extract_tags"
    by (cases audio) (simp_all add: metadata_try_def)
  then show ?thesis
    using assms metadata_from_file_serializable by simp
qed

lemma extract_audio_metadata_serializable:
  assumes "extract_audio_metadata E audio extract_format extract_technical extract_tags = Inr r"
  shows "json_serializable (fst r)"
proof (cases "metadata_try E audio extract_format extract_technical extract_tags")
  case (Inl e)
  then show ?thesis
    using assms by (auto simp add: extract_audio_metadata_def except_Exception_def
                      split: if_splits)
next
  case (Inr v)
  then show ?thesis
    using assms metadata_try_serializable[OF Inr] by (simp add: extract_audio_metadata_def)
qed

text \<open>The record of a file whose size can be read, and of one whose size cannot.\<close>

lemma file_record_ok:
  assumes "os_path_getsize E audio_file = Inr n"
      and "calculate_audio_duration E (PDict [(''file_path'', PStr audio_file)]) ''auto'' 3
             True (- 60) = Inr dr"
      and "extract_audio_metadata E (PDict [(''file_path'', PStr audio_file)]) True True False
             = Inr mr"
  shows "process_single_file E audio_file operation =
           Inr ([(''file'', PStr audio_file),
                 (''filename'', PStr (os_path_basename audio_file)),
                 (''size_bytes'', PInt (int n)),
                 (''status'', PStr ''success'')] @
                (if operation \<in> set [''duration'', ''both'']
                 then [(''duration_seconds'', PFloat (fst dr)),
                       (''duration_formatted'', PStr (fst (snd dr)))]
                 else []) @
                (if operation \<in> set [''metadata'', ''both'']
                 then [(''metadata'', fst mr)]
                 else []))"
    and "file_record E operation audio_file = process_single_file E audio_file operation"
proof -
  show p: "process_single_file E audio_file operation =
           Inr ([(''file'', PStr audio_file),
                 (''filename'', PStr (os_path_basename audio_file)),
                 (''size_bytes'', PInt (int n)),
                 (''status'', PStr ''success'')] @
                (if operation \<in> set [''duration'', ''both'']
                 then [(''duration_seconds'', PFloat (fst dr)),
                       (''duration_formatted'', PStr (fst (snd dr)))]
                 else []) @
                (if operation \<in> set [''metadata'', ''both'']
                 then [(''metadata'', fst mr)]
                 else []))"
    unfolding process_single_file_def assms
    by (simp add: dict_set_def Let_def)
  show "file_record E operation audio_file = process_single_file E audio_file operation"
    unfolding file_record_def p by simp
qed

lemma file_record_failed:
  assumes "os_path_getsize E audio_file = Inl e"
  shows "process_single_file E audio_file operation = Inl OSError"
    and "file_record E operation audio_file =
           Inr [(''file'', PStr audio_file), (''error'', PStr (exn_str E OSError)),
                (''status'', PStr ''failed'')]"
proof -
  have e: "e = OSError"
    using assms by (auto simp add: os_path_getsize_def split: option.splits fs_entry.splits)
  show p: "process_single_file E audio_file operation = Inl OSError"
    using assms unfolding e by (simp add: process_single_file_def)
  show "file_record E operation audio_file =
           Inr [(''file'', PStr audio_file), (''error'', PStr (exn_str E OSError)),
                (''status'', PStr ''failed'')]"
    unfolding file_record_def p by (simp add: except_Exception_def)
qed

lemma os_path_getsize_exists_iff:
  "(\<exists>n. os_path_getsize E p = Inr n) = os_path_exists E p"
  by (auto simp add: os_path_getsize_def os_path_exists_def split: option.splits fs_entry.splits)

lemma process_single_file_cases:
  "(\<exists>r. process_single_file E audio_file operation = Inr r) = os_path_exists E audio_file"
  "(\<exists>e. process_single_file E audio_file operation = Inl e) = (\<not> os_path_exists E audio_file)"
proof -
  obtain dr where dr: "calculate_audio_duration E (PDict [(''file_path'', PStr audio_file)])
                         ''auto'' 3 True (- 60) = Inr dr"
    using calculate_audio_duration_returns by blast
  obtain mr where mr: "extract_audio_metadata E (PDict [(''file_path'', PStr audio_file)])
                         True True False = Inr mr"
    using extract_audio_metadata_returns by blast
  show "(\<exists>r. process_single_file E audio_file operation = Inr r) = os_path_exists E audio_file"
    using file_record_ok(1)[OF _ dr mr, of _ operation] file_record_failed(1)[of E audio_file]
          os_path_getsize_exists_iff[of E audio_file]
    by (cases "os_path_getsize E audio_file") auto
  show "(\<exists>e. process_single_file E audio_file operation = Inl e) =
          (\<not> os_path_exists E audio_file)"
    using file_record_ok(1)[OF _ dr mr, of _ operation] file_record_failed(1)[of E audio_file]
          os_path_getsize_exists_iff[of E audio_file]
    by (cases "os_path_getsize E audio_file") auto
qed

text \<open>What the records of a batch have in common.\<close>

lemma file_record_facts:
  assumes "file_record E operation audio_file = Inr r"
  shows "is_success r = os_path_exists E audio_file"
    and "(map_of r ''status'' = Some (PStr ''failed'')) = (\<not> os_path_exists E audio_file)"
    and "map_of r ''duration_seconds'' = None \<or>
         (\<exists>x. map_of r ''duration_seconds'' = Some (PFloat x))"
    and "json_serializable (PDict r)"
proof -
  obtain dr where dr: "calculate_audio_duration E (PDict [(''file_path'', PStr audio_file)])
                         ''auto'' 3 True (- 60) = Inr dr"
    using calculate_audio_duration_returns by blast
  obtain mr where mr: "extract_audio_metadata E (PDict [(''file_path'', PStr audio_file)])
                         True True False = Inr mr"
    using extract_audio_metadata_returns by blast
  have js: "json_serializable (fst mr)"
    using extract_audio_metadata_serializable[OF mr] .
  have "is_success r = os_path_exists E audio_file \<and>
        (map_of r ''status'' = Some (PStr ''failed'')) = (\<not> os_path_exists E audio_file) \<and>
        (map_of r ''duration_seconds'' = None \<or>
         (\<exists>x. map_of r ''duration_seconds'' = Some (PFloat x))) \<and>
        json_serializable (PDict r)"
  proof (cases "os_path_getsize E audio_file")
    case (Inl e)
    then have "\<not> os_path_exists E audio_file"
      using os_path_getsize_exists_iff[of E audio_file] by simp
    then show ?thesis
      using assms file_record_failed(2)[OF Inl, of operation] by (auto simp add: is_success_def)
  next
    case (Inr n)
    then have "os_path_exists E audio_file"
      using os_path_getsize_exists_iff[of E audio_file] by blast
    then show ?thesis
      using assms file_record_ok[OF Inr dr mr, of operation] js
      by (auto simp add: is_success_def)
  qed
  then show "is_success r = os_path_exists E audio_file"
    and "(map_of r ''status'' = Some (PStr ''failed'')) = (\<not> os_path_exists E audio_file)"
    and "map_of r ''duration_seconds'' = None \<or>
         (\<exists>x. map_of r ''duration_seconds'' = Some (PFloat x))"
    and "json_serializable (PDict r)"
    by blast+
qed

subsection \<open>The records of a batch\<close>

lemma process_files_records:
  "\<exists>results. process_files E operation audio_files = Inr results \<and>
             list_all2 (\<lambda>f r. file_record E operation f = Inr r) audio_files results"
proof (induction audio_files)
  case Nil
  show ?case by simp
next
  case (Cons f fs)
  obtain r where r: "file_record E operation f = Inr r"
    using file_record_returns by blast
  from Cons obtain rs where rs: "process_files E operation fs = Inr rs"
    "list_all2 (\<lambda>f r. file_record E operation f = Inr r) fs rs" by blast
  show ?case by (simp add: r rs)
qed

lemma sum_durations_records:
  "list_all2 (\<lambda>f r. file_record E operation f = Inr r) audio_files results \<Longrightarrow>
   \<exists>s. sum_durations results = Inr s"
proof (induction audio_files results rule: list_all2_induct)
  case Nil
  show ?case by simp
next
  case (Cons f fs r rs)
  then obtain s where s: "sum_durations rs = Inr s" by blast
  show ?case
    using file_record_facts(3)[OF Cons(1)] s by auto
qed


lemma create_batch_summary_records:
  assumes "list_all2 (\<lambda>f r. file_record E operation f = Inr r) audio_files results"
  shows "\<exists>rest. create_batch_summary results operation =
     Inr (''Processed '' @ nat_str (length (filter is_success results)) @
          ''/'' @ nat_str (length audio_files) @ '' files'' @ rest)"
proof -
  obtain s where s: "sum_durations results = Inr s"
    using sum_durations_records[OF assms] by blast
  have l: "length results = length audio_files"
    using assms by (simp add: list_all2_lengthD)
  show ?thesis
  proof (cases "operation \<in> set [''duration'', ''both'']")
    case True
    then have "create_batch_summary results operation =
       Inr (''Processed '' @ nat_str (length (filter is_success results)) @
          ''/'' @ nat_str (length audio_files) @ '' files'' @
          ('' | Total duration: '' @ total_duration_str s))"
      unfolding create_batch_summary_def Let_def l using s by simp
    then show ?thesis by blast
  next
    case False
    then have "create_batch_summary results operation =
       Inr (''Processed '' @ nat_str (length (filter is_success results)) @
          ''/'' @ nat_str (length audio_files) @ '' files'' @ [])"
      unfolding create_batch_summary_def Let_def l by simp
    then show ?thesis by blast
  qed
qed

text \<open>
  Claim C10. The two inner calls of \<^verbatim>\<open>_process_single_file\<close> always return. The record of
  a file has the status \<^verbatim>\<open>success\<close> exactly when \<^verbatim>\<open>_process_single_file\<close> returns, and
  the status \<^verbatim>\<open>failed\<close> exactly when an exception escapes it (the size of the file cannot be
  read); the outcome of the duration node plays no part. A file for which the duration node
  returns its error tuple therefore has a record with \<^verbatim>\<open>duration_seconds\<close> \<open>0.0\<close> and the
  status \<^verbatim>\<open>success\<close>, and it is counted among the \<open>X\<close> of the summary
  \<^verbatim>\<open>Processed X/N files\<close>, where \<open>X\<close> is the number of records with the status
  \<^verbatim>\<open>success\<close>.
\<close>

theorem batch_status_ignores_duration_errors:
  "(\<exists>duration_result.
      calculate_audio_duration E (PDict [(''file_path'', PStr audio_file)]) ''auto'' 3 True
        (- 60) = Inr duration_result) \<and>
   (\<exists>meta_result.
      extract_audio_metadata E (PDict [(''file_path'', PStr audio_file)]) True True False
        = Inr meta_result) \<and>
   (\<exists>r. file_record E operation audio_file = Inr r \<and>
        is_success r = (\<exists>v. process_single_file E audio_file operation = Inr v) \<and>
        (map_of r ''status'' = Some (PStr ''failed'')) =
          (\<exists>e. process_single_file E audio_file operation = Inl e) \<and>
        (operation \<in> set [''duration'', ''both''] \<and> os_path_exists E audio_file \<and>
         calculate_audio_duration E (PDict [(''file_path'', PStr audio_file)]) ''auto'' 3 True
           (- 60) = Inr (error_response msg) \<longrightarrow>
           map_of r ''duration_seconds'' = Some (PFloat 0) \<and>
           map_of r ''status'' = Some (PStr ''success'') \<and>
           is_success r)) \<and>
   (\<exists>results rest.
      process_files E operation audio_files = Inr results \<and>
      list_all2 (\<lambda>f r. file_record E operation f = Inr r) audio_files results \<and>
      create_batch_summary results operation =
        Inr (''Processed '' @ nat_str (length (filter is_success results)) @
             ''/'' @ nat_str (length audio_files) @ '' files'' @ rest))"
proof -
  obtain dr where dr: "calculate_audio_duration E (PDict [(''file_path'', PStr audio_file)])
                         ''auto'' 3 True (- 60) = Inr dr"
    using calculate_audio_duration_returns by blast
  obtain mr where mr: "extract_audio_metadata E (PDict [(''file_path'', PStr audio_file)])
                         True True False = Inr mr"
    using extract_audio_metadata_returns by blast
  obtain r where r: "file_record E operation audio_file = Inr r"
    using file_record_returns by blast
  have a: "is_success r = (\<exists>v. process_single_file E audio_file operation = Inr v)"
    by (simp add: file_record_facts(1)[OF r] process_single_file_cases)
  have b: "(map_of r ''status'' = Some (PStr ''failed'')) =
             (\<exists>e. process_single_file E audio_file operation = Inl e)"
    by (simp add: file_record_facts(2)[OF r] process_single_file_cases)
  have c: "map_of r ''duration_seconds'' = Some (PFloat 0) \<and>
           map_of r ''status'' = Some (PStr ''success'') \<and> is_success r"
    if op: "operation \<in> set [''duration'', ''both'']" and ex: "os_path_exists E audio_file"
      and err: "calculate_audio_duration E (PDict [(''file_path'', PStr audio_file)]) ''auto'' 3
                  True (- 60) = Inr (error_response msg)"
  proof -
    obtain n where n: "os_path_getsize E audio_file = Inr n"
      using ex os_path_getsize_exists_iff[of E audio_file] by blast
    show ?thesis
      using op r file_record_ok[OF n err mr, of operation]
      by (auto simp add: error_response_def is_success_def)
  qed
  obtain results where results: "process_files E operation audio_files = Inr results"
    "list_all2 (\<lambda>f r. file_record E operation f = Inr r) audio_files results"
    using process_files_records by blast
  obtain rest where rest: "create_batch_summary results operation =
        Inr (''Processed '' @ nat_str (length (filter is_success results)) @
             ''/'' @ nat_str (length audio_files) @ '' files'' @ rest)"
    using create_batch_summary_records[OF results(2)] by blast
  show ?thesis
    using dr mr r a b c results rest by blast
qed

lemma duration_c_flac:
  "calculate_audio_duration env0 (PDict [(''file_path'', PStr ''/in/c.flac'')]) ''auto'' 3 True
     (- 60) = Inr (error_response msg_empty_file)"
  by (simp add: duration_except_def duration_try_def dict_has_def dict_get_def
        calculate_from_file_str os_path_exists_def os_path_isfile_def os_path_getsize_def
        env0_def fs0_def)

lemma record_c_flac:
  "file_record env0 ''duration'' ''/in/c.flac'' =
     Inr [(''file'', PStr ''/in/c.flac''), (''filename'', PStr ''c.flac''),
          (''size_bytes'', PInt 0), (''status'', PStr ''success''),
          (''duration_seconds'', PFloat 0), (''duration_formatted'', PStr ''00:00:00.000'')]"
proof -
  have n: "os_path_getsize env0 ''/in/c.flac'' = Inr 0"
    by (simp add: os_path_getsize_def env0_def fs0_def)
  have b: "os_path_basename ''/in/c.flac'' = ''c.flac''"
    by (simp add: os_path_basename_def rfind_def)
  obtain mr where mr: "extract_audio_metadata env0 (PDict [(''file_path'', PStr ''/in/c.flac'')])
                         True True False = Inr mr"
    using extract_audio_metadata_returns by blast
  show ?thesis
    using file_record_ok[OF n duration_c_flac mr, of "''duration''"]
    by (simp add: b error_response_def)
qed

theorem batch_status_ignores_duration_errors_witness:
  "''duration'' \<in> set [''duration'', ''both''] \<and> os_path_exists env0 ''/in/c.flac'' \<and>
   calculate_audio_duration env0 (PDict [(''file_path'', PStr ''/in/c.flac'')]) ''auto'' 3
     True (- 60) = Inr (error_response msg_empty_file) \<and>
   file_record env0 ''duration'' ''/in/c.flac'' =
     Inr [(''file'', PStr ''/in/c.flac''), (''filename'', PStr ''c.flac''),
          (''size_bytes'', PInt 0), (''status'', PStr ''success''),
          (''duration_seconds'', PFloat 0), (''duration_formatted'', PStr ''00:00:00.000'')] \<and>
   (\<exists>r. file_record env0 ''duration'' ''/in/c.flac'' = Inr r \<and>
        map_of r ''duration_seconds'' = Some (PFloat 0) \<and>
        map_of r ''status'' = Some (PStr ''success'') \<and> is_success r) \<and>
   (\<exists>results. process_files env0 ''duration'' [''/in/c.flac''] = Inr results \<and>
        create_batch_summary results ''duration'' =
          Inr ''Processed 1/1 files | Total duration: 0.0s'')"
proof -
  have h: "''duration'' \<in> set [''duration'', ''both'']" "os_path_exists env0 ''/in/c.flac''"
    by (simp_all add: os_path_exists_def env0_def fs0_def)
  have t: "total_duration_str 0 = ''0.0s''" by code_simp
  have n: "nat_str (Suc 0) = ''1''" by (simp add: nat_str_lt10 digit_char_def)
  have s: "create_batch_summary
             [[(''file'', PStr ''/in/c.flac''), (''filename'', PStr ''c.flac''),
               (''size_bytes'', PInt 0), (''status'', PStr ''success''),
               (''duration_seconds'', PFloat 0),
               (''duration_formatted'', PStr ''00:00:00.000'')]] ''duration'' =
           Inr ''Processed 1/1 files | Total duration: 0.0s''"
    by (simp add: create_batch_summary_def is_success_def t n)
  show ?thesis
    using h duration_c_flac record_c_flac s
      batch_status_ignores_duration_errors[where E = env0 and operation = "''duration''"
        and audio_file = "''/in/c.flac''" and msg = msg_empty_file
        and audio_files = "[''/in/c.flac'']"]
    by (auto simp add: is_success_def)
qed

subsection \<open>A batch of three files\<close>




text \<open>White space of Unicode around a pattern is removed as well.\<close>

lemma strip_unicode:
  "strip ([CHR 0xC2, CHR 0xA0] @ ''*.wav '' @ [CHR 0xE2, CHR 0x80, CHR 0x83, CHR 0x09]) = ''*.wav''"
  by code_simp





section \<open>The entry points\<close>

text \<open>
  Claim C2. Each of the three entry points returns a tuple for every input and every
  environment: no exception gets past its handler, since every exception raised in its body
  derives from \<^verbatim>\<open>Exception\<close>. An exception raised in the body gives the tuple of the node's
  arity with zero or empty values and the text of the exception:
  \<open>(0.0, "00:00:00.000", "error: ...", "{}")\<close> for the duration node,
  \<open>("{}", "Error: ...", "error", 0.0)\<close> for the metadata node and
  \<open>("{}", "Error: ...", "[]")\<close> for the batch node. For a list that is not empty the
  duration node returns what it returns for the first element of the list.
\<close>

theorem entry_points_catch_failures:
  "(\<exists>r. calculate_audio_duration E audio calculation_mode time_precision include_silence thr
          = Inr r) \<and>
   (\<exists>r. extract_audio_metadata E audio' extract_format extract_technical extract_tags
          = Inr r) \<and>
   (\<exists>r. process_audio_batch E directory_path file_pattern operation recursive = Inr r) \<and>
   calculate_audio_duration E (PList (x # xs)) calculation_mode time_precision include_silence
       thr =
     calculate_audio_duration E x calculation_mode time_precision include_silence thr \<and>
   (duration_try E audio calculation_mode time_precision include_silence thr = Inl e \<longrightarrow>
      is_Exception e \<and>
      calculate_audio_duration E audio calculation_mode time_precision include_silence thr =
        Inr (0, ''00:00:00.000'', ''error: '' @ msg_exception @ exn_str E e, PDict [])) \<and>
   (metadata_try E audio' extract_format extract_technical extract_tags = Inl e' \<longrightarrow>
      is_Exception e' \<and>
      extract_audio_metadata E audio' extract_format extract_technical extract_tags =
        Inr (PDict [], ''Error: '' @ exn_str E e', PStr ''error'', 0)) \<and>
   (batch_try E directory_path file_pattern operation recursive = Inl e'' \<longrightarrow>
      is_Exception e'' \<and>
      process_audio_batch E directory_path file_pattern operation recursive =
        Inr (PDict [], ''Error: '' @ exn_str E e'', PList []))"
proof -
  have l: "calculate_audio_duration E (PList (x # xs)) calculation_mode time_precision
             include_silence thr =
           calculate_audio_duration E x calculation_mode time_precision include_silence thr"
  proof -
    obtain r where "calculate_audio_duration E x calculation_mode time_precision
                      include_silence thr = Inr r"
      using calculate_audio_duration_returns by blast
    then show ?thesis by (simp add: duration_except_def)
  qed
  have d: "is_Exception e \<and>
           calculate_audio_duration E audio calculation_mode time_precision include_silence thr =
             Inr (0, ''00:00:00.000'', ''error: '' @ msg_exception @ exn_str E e, PDict [])"
    if r: "duration_try E audio calculation_mode time_precision include_silence thr = Inl e"
  proof -
    have c: "is_Exception e"
      using contained_duration_try[of E audio calculation_mode time_precision include_silence
              thr] r by simp
    have "calculate_audio_duration E audio calculation_mode time_precision include_silence thr =
             Inr (0, ''00:00:00.000'', ''error: '' @ msg_exception @ exn_str E e, PDict [])"
    proof (cases audio)
      case (PList ys)
      then show ?thesis using r by (cases ys) (simp_all add: duration_try_def)
    qed (use r c in \<open>simp_all add: duration_except_def except_Exception_def
                       error_response_def\<close>)
    with c show ?thesis by blast
  qed
  have m: "is_Exception e' \<and>
           extract_audio_metadata E audio' extract_format extract_technical extract_tags =
             Inr (PDict [], ''Error: '' @ exn_str E e', PStr ''error'', 0)"
    if r: "metadata_try E audio' extract_format extract_technical extract_tags = Inl e'"
    using contained_metadata_try[of E audio' extract_format extract_technical extract_tags] r
    by (simp add: extract_audio_metadata_def except_Exception_def)
  have b: "is_Exception e'' \<and>
           process_audio_batch E directory_path file_pattern operation recursive =
             Inr (PDict [], ''Error: '' @ exn_str E e'', PList [])"
    if r: "batch_try E directory_path file_pattern operation recursive = Inl e''"
    using contained_batch_try[of E directory_path file_pattern operation recursive] r
    by (simp add: process_audio_batch_def except_Exception_def)
  show ?thesis
    using calculate_audio_duration_returns[of E audio calculation_mode time_precision
            include_silence thr]
          extract_audio_metadata_returns[of E audio' extract_format extract_technical
            extract_tags]
          process_audio_batch_returns[of E directory_path file_pattern operation recursive]
          l d m b
    by blast
qed

theorem entry_points_catch_failures_witness:
  "duration_try env0 (PDict [(''waveform'', PTensor [] 4)]) ''auto'' 3 True (- 60)
     = Inl IndexError \<and>
   calculate_audio_duration env0 (PDict [(''waveform'', PTensor [] 4)]) ''auto'' 3 True (- 60) =
     Inr (0, ''00:00:00.000'', ''error: '' @ msg_exception @ ''exception'', PDict []) \<and>
   calculate_audio_duration env0 (PList [PDict [(''waveform'', PTensor [] 4)], PNone]) ''auto'' 3
       True (- 60) =
     Inr (0, ''00:00:00.000'', ''error: '' @ msg_exception @ ''exception'', PDict []) \<and>
   metadata_try env0 (PDict [(''file_path'', PFloat (3 / 2))]) True True False = Inl TypeError \<and>
   extract_audio_metadata env0 (PDict [(''file_path'', PFloat (3 / 2))]) True True False =
     Inr (PDict [], ''Error: exception'', PStr ''error'', 0) \<and>
   batch_try env0 (PStr ''/in'') PNone ''both'' True = Inl AttributeError \<and>
   process_audio_batch env0 (PStr ''/in'') PNone ''both'' True =
     Inr (PDict [], ''Error: exception'', PList [])"
proof -
  have d: "duration_try env0 (PDict [(''waveform'', PTensor [] 4)]) ''auto'' 3 True (- 60)
             = Inl IndexError"
    by (simp add: duration_try_def dict_has_def dict_get_def calculate_duration_from_tensor_def
          except_Exception_def tensor_try_def num_samples_of_def shape_last_def
          tensor_fallback_def)
  have m: "metadata_try env0 (PDict [(''file_path'', PFloat (3 / 2))]) True True False
             = Inl TypeError"
    by (simp add: metadata_try_def dict_has_def dict_get_def metadata_from_file_def
          get_audio_path_def py_exists_def stat_test_def os_stat_def)
  have b: "batch_try env0 (PStr ''/in'') PNone ''both'' True = Inl AttributeError"
    by (simp add: batch_try_def os_path_isdir_def find_audio_files_def env0_def fs0_def)
  have s: "exn_str env0 = (\<lambda>e. ''exception'')"
    by (simp add: env0_def)
  show ?thesis
    using d m b
      entry_points_catch_failures[where E = env0
        and audio = "PDict [(''waveform'', PTensor [] 4)]" and calculation_mode = "''auto''"
        and time_precision = 3 and include_silence = True and thr = "- 60" and e = IndexError
        and x = "PDict [(''waveform'', PTensor [] 4)]" and xs = "[PNone]"
        and audio' = "PDict [(''file_path'', PFloat (3 / 2))]" and extract_format = True
        and extract_technical = True and extract_tags = False and e' = TypeError
        and directory_path = "PStr ''/in''" and file_pattern = PNone and operation = "''both''"
        and recursive = True and e'' = AttributeError]
    by (simp add: s duration_except_def except_Exception_def)
qed

end
